theory Spec2Isabelle
  imports Main "HOL-Library.Sublist"
begin

section \<open>JavaScript values used by the route handlers\<close>

text \<open>
  Strings are character lists: a character is one code unit of the JavaScript string, and
  the strings of the model are those whose code units are all below 256 (\<open>CHR 0xA0\<close> is the
  no-break space U+00A0). A request field or an environment variable that may be
  missing (\<^verbatim>\<open>undefined\<close>, \<^verbatim>\<open>null\<close>) is a \<open>string option\<close>. Times are milliseconds since the
  epoch, as \<^verbatim>\<open>Date.now()\<close> returns them; a record's \<^verbatim>\<open>date\<close> is the ISO string of such a
  time and is kept as the number it denotes.
\<close>

type_synonym env = "string \<rightharpoonup> string"

text \<open>Truthiness of a string-or-null value: \<^verbatim>\<open>null\<close>, \<^verbatim>\<open>undefined\<close> and \<^verbatim>\<open>''\<close> are falsy.\<close>

fun truthy :: "string option \<Rightarrow> bool" where
  "truthy None = False"
| "truthy (Some s) = (s \<noteq> [])"

text \<open>\<^verbatim>\<open>v || null\<close> on a string-or-undefined value.\<close>

definition or_null :: "string option \<Rightarrow> string option" where
  "or_null v = (if truthy v then v else None)"

text \<open>\<^verbatim>\<open>process.env.X || d\<close>.\<close>

definition env_or :: "env \<Rightarrow> string \<Rightarrow> string \<Rightarrow> string" where
  "env_or env x d = (case env x of Some s \<Rightarrow> (if s = [] then d else s) | None \<Rightarrow> d)"

text \<open>Interpolation \<^verbatim>\<open>${v}\<close> of a value that may be \<^verbatim>\<open>undefined\<close>, and of one that may be
  \<^verbatim>\<open>null\<close>.\<close>

definition js_string :: "string option \<Rightarrow> string" where
  "js_string v = (case v of Some s \<Rightarrow> s | None \<Rightarrow> ''undefined'')"

definition the_str :: "string option \<Rightarrow> string" where
  "the_str v = (case v of Some s \<Rightarrow> s | None \<Rightarrow> ''null'')"

text \<open>\<^verbatim>\<open>s.replace(/c/g, r)\<close> for a single character \<open>c\<close>.\<close>

definition replaceAll :: "char \<Rightarrow> string \<Rightarrow> string \<Rightarrow> string" where
  "replaceAll c r s = concat (map (\<lambda>x. if x = c then r else [x]) s)"

text \<open>\<^verbatim>\<open>s.includes(pat)\<close>.\<close>

fun includes_str :: "string \<Rightarrow> string \<Rightarrow> bool" where
  "includes_str [] pat = (pat = [])"
| "includes_str (c # cs) pat = (prefix pat (c # cs) \<or> includes_str cs pat)"

text \<open>\<^verbatim>\<open>n.toString()\<close> of a non-negative integer: its decimal digits.\<close>

definition digit_char :: "nat \<Rightarrow> char" where
  "digit_char d = char_of (48 + d)"

function toString_nat :: "nat \<Rightarrow> string" where
  "toString_nat n =
     (if n < 10 then [digit_char n] else toString_nat (n div 10) @ [digit_char (n mod 10)])"
  by pat_completeness auto
termination
  by (relation "measure id") auto

declare toString_nat.simps [simp del]

definition is_digit :: "char \<Rightarrow> bool" where
  "is_digit c = (c \<in> set ''0123456789'')"

text \<open>\<^verbatim>\<open>phone ? phone.replace(/[^\d+]/g, '') : ''\<close>; the earlier router writes the same
  replacement as \<^verbatim>\<open>/[^0-9+]/g\<close>, inside the branch for a phone number that is there.\<close>

definition safePhone :: "string option \<Rightarrow> string" where
  "safePhone p =
     (if truthy p then filter (\<lambda>c. is_digit c \<or> c = CHR ''+'') (the_str p) else [])"

datatype status = pending | completed | failed

section \<open>Requests, validation chains, mail and responses\<close>

text \<open>The body of a form post: each field is a string or absent. \<^verbatim>\<open>req.ip\<close> is the address of
  the client.\<close>

record request =
  body_name :: "string option"
  body_email :: "string option"
  body_phone :: "string option"
  body_category :: "string option"
  body_age :: "string option"
  body_message :: "string option"
  req_ip :: string

text \<open>
  The sanitizers and validators of the \<^verbatim>\<open>express-validator\<close> package whose results depend on
  that package's own tables (\<^verbatim>\<open>trim\<close>, \<^verbatim>\<open>escape\<close>, \<^verbatim>\<open>normalizeEmail\<close>, \<^verbatim>\<open>isEmail\<close>) are
  parameters of the model.
\<close>

record validator =
  v_trim :: "string \<Rightarrow> string"
  v_escape :: "string \<Rightarrow> string"
  v_normalizeEmail :: "string \<Rightarrow> string"
  v_isEmail :: "string \<Rightarrow> bool"

text \<open>A chain \<^verbatim>\<open>body('f').a().b().withMessage(m)...\<close> is the list of its steps, in the order
  written: a sanitizer replaces the value, a validator checks the value it finds and adds its
  message to the errors of the field when the check fails. The chain does not stop at a
  failing validator.\<close>

datatype rule = Sanitizer "string \<Rightarrow> string" | Validator "string \<Rightarrow> bool" string

text \<open>An error object of the validation result. Of its keys the field's name (\<^verbatim>\<open>path\<close>) and
  the message (\<^verbatim>\<open>msg\<close>) are kept.\<close>

record verror =
  err_path :: string
  err_msg :: string

fun run_chain :: "string \<Rightarrow> rule list \<Rightarrow> string \<Rightarrow> string \<times> verror list" where
  "run_chain path [] v = (v, [])"
| "run_chain path (Sanitizer f # rs) v = run_chain path rs (f v)"
| "run_chain path (Validator p msg # rs) v =
     (case run_chain path rs v of
        (v', es) \<Rightarrow> (v', if p v then es else \<lparr>err_path = path, err_msg = msg\<rparr> # es))"

text \<open>A chain on a field: an absent field is checked as the empty string.\<close>

definition body :: "string \<Rightarrow> rule list \<Rightarrow> string option \<Rightarrow> string \<times> verror list" where
  "body path rules v = run_chain path rules (case v of None \<Rightarrow> [] | Some s \<Rightarrow> s)"

text \<open>A chain that starts with \<^verbatim>\<open>.optional()\<close>: an absent field is left alone.\<close>

definition body_optional ::
  "string \<Rightarrow> rule list \<Rightarrow> string option \<Rightarrow> string option \<times> verror list" where
  "body_optional path rules v =
     (case v of None \<Rightarrow> (None, [])
      | Some s \<Rightarrow> (case run_chain path rules s of (v', es) \<Rightarrow> (Some v', es)))"

definition notEmpty :: "string \<Rightarrow> bool" where
  "notEmpty s = (s \<noteq> [])"

definition isLength_max :: "nat \<Rightarrow> string \<Rightarrow> bool" where
  "isLength_max n s = (length s \<le> n)"

text \<open>The class \<^verbatim>\<open>\s\<close> of a JavaScript regular expression, on code units below 256: space, TAB,
  LF, VT, FF, CR and the no-break space U+00A0. Its other members (U+1680, U+2000 to U+200A,
  U+2028, U+2029, U+202F, U+205F, U+3000, U+FEFF) are code units above 255.\<close>

definition is_space :: "char \<Rightarrow> bool" where
  "is_space c =
     (c \<in> set [CHR '' '', CHR 0x09, CHR 0x0A, CHR 0x0B, CHR 0x0C, CHR 0x0D, CHR 0xA0])"

text \<open>\<^verbatim>\<open>errors.array({ onlyFirstError: true })\<close>: the first error of each field, in the order
  the fields first fail.\<close>

fun onlyFirstError :: "verror list \<Rightarrow> verror list" where
  "onlyFirstError [] = []"
| "onlyFirstError (e # es) = e # onlyFirstError (filter (\<lambda>x. err_path x \<noteq> err_path e) es)"

record mail =
  mail_from :: string
  mail_to :: string
  mail_subject :: string
  mail_html :: string
  mail_priority :: "string option"

text \<open>\<^verbatim>\<open>transporter.sendMail(m)\<close> settles with nothing or rejects with an error, kept as its
  \<^verbatim>\<open>message\<close>. What the transport does with a mail is a parameter of every handler.\<close>

type_synonym 'a settled = "string + 'a"

text \<open>\<^verbatim>\<open>p.catch(err => { console.error(...) })\<close>: the rejection is logged and the promise
  fulfils.\<close>

definition catch_log :: "unit settled \<Rightarrow> unit settled" where
  "catch_log p = (case p of Inl err \<Rightarrow> Inr () | Inr u \<Rightarrow> Inr u)"

text \<open>\<^verbatim>\<open>await Promise.all([a, b])\<close>: both promises are started; the result rejects with the
  rejection that happens first. When both reject, \<open>second_first\<close> tells which one was first.\<close>

definition promise_all2 :: "bool \<Rightarrow> 'a settled \<Rightarrow> 'b settled \<Rightarrow> ('a \<times> 'b) settled" where
  "promise_all2 second_first a b =
     (case (a, b) of
        (Inr x, Inr y) \<Rightarrow> Inr (x, y)
      | (Inl e, Inr y) \<Rightarrow> Inl e
      | (Inr x, Inl e) \<Rightarrow> Inl e
      | (Inl e1, Inl e2) \<Rightarrow> Inl (if second_first then e2 else e1))"

text \<open>\<^verbatim>\<open>res.status(code).json({ success, message, errors, data, error })\<close>; a key that the
  handler does not write, or writes as \<^verbatim>\<open>undefined\<close>, is \<open>None\<close>.\<close>

record ('e, 'd) response =
  res_status :: nat
  res_success :: bool
  res_message :: "string option"
  res_errors :: "'e list option"
  res_data :: "'d option"
  res_error :: "string option"


section \<open>\<^verbatim>\<open>routes/SubdomainContact.js\<close>: the rate-limited router with the TTL store\<close>

record submission =
  sub_id :: string
  sub_name :: string
  sub_email :: string
  sub_phone :: "string option"
  sub_date :: nat
  sub_status :: status
  sub_ip :: string
  sub_error :: "string option"

text \<open>\<^verbatim>\<open>escapeHtml\<close>: five global replacements, the ampersand first.\<close>

definition escapeHtml :: "string \<Rightarrow> string" where
  \<open>escapeHtml unsafe =
    (if unsafe = [] then []
     else replaceAll (CHR 0x27) ''&#039;''
           (replaceAll (CHR 0x22) ''&quot;''
             (replaceAll (CHR ''>'') ''&gt;''
               (replaceAll (CHR ''<'') ''&lt;''
                 (replaceAll (CHR ''&'') ''&amp;'' unsafe)))))\<close>

text \<open>The two renderers. \<^verbatim>\<open>new Date(d).toLocaleString()\<close> depends on the locale of the process;
  it is the parameter \<open>toLocaleString\<close> of every renderer.\<close>

text \<open>The static text of the template of \<^verbatim>\<open>generateAdminEmail\<close> before its first and after its last
  interpolation.\<close>

definition sdc_generateAdminEmail_head :: string where
  \<open>sdc_generateAdminEmail_head =
    ''\<newline>'' @
    ''    <!DOCTYPE html>\<newline>'' @
    ''    <html>\<newline>'' @
    ''    <head>\<newline>'' @
    ''      <meta charset="UTF-8">\<newline>'' @
    ''      <style>\<newline>'' @
    ''        body { font-family: Arial, sans-serif; line-height: 1.6; color: #333; }\<newline>'' @
    ''        .container { max-width: 600px; margin: 0 auto; padding: 20px; }\<newline>'' @
    ''        .header { color: #28a745; border-bottom: 1px solid #eee; padding-bottom: 10px; }\<newline>'' @
    ''        .footer { margin-top: 20px; font-size: 0.9em; color: #777; }\<newline>'' @
    ''        .info { margin: 15px 0; }\<newline>'' @
    ''      </style>\<newline>'' @
    ''    </head>\<newline>'' @
    ''    <body>\<newline>'' @
    ''      <div class="container">\<newline>'' @
    ''        <h2 class="header">New Contact Submission</h2>\<newline>'' @
    ''        <div class="info">\<newline>'' @
    ''          <p><strong>Name:</strong> ''\<close>

definition sdc_generateAdminEmail_tail :: string where
  \<open>sdc_generateAdminEmail_tail =
    ''</p>\<newline>'' @
    ''        </div>\<newline>'' @
    ''        <p>Please respond to this inquiry within 24 hours.</p>\<newline>'' @
    ''        <div class="footer">\<newline>'' @
    ''          <p>This is an automated message. Please do not reply directly to this email.</p>\<newline>'' @
    ''        </div>\<newline>'' @
    ''      </div>\<newline>'' @
    ''    </body>\<newline>'' @
    ''    </html>\<newline>'' @
    ''  ''\<close>

definition sdc_generateAdminEmail :: "(nat \<Rightarrow> string) \<Rightarrow> submission \<Rightarrow> string" where
  \<open>sdc_generateAdminEmail toLocaleString submission =
    sdc_generateAdminEmail_head @
    escapeHtml (sub_name submission) @
    ''</p>\<newline>'' @
    ''          <p><strong>Email:</strong> <a href="mailto:'' @
    escapeHtml (sub_email submission) @
    ''">'' @
    escapeHtml (sub_email submission) @
    ''</a></p>\<newline>'' @
    ''          '' @
    (if truthy (sub_phone submission)
     then ''<p><strong>Phone:</strong> <a href="tel:'' @ safePhone (sub_phone submission) @ ''">'' @
          escapeHtml (the_str (sub_phone submission)) @ ''</a></p>''
     else '''') @
    ''\<newline>'' @
    ''          <p><strong>Date:</strong> '' @
    toLocaleString (sub_date submission) @
    ''</p>\<newline>'' @
    ''          <p><strong>Reference ID:</strong> '' @
    sub_id submission @
    ''</p>\<newline>'' @
    ''          <p><strong>IP Address:</strong> '' @
    sub_ip submission @
    sdc_generateAdminEmail_tail\<close>

text \<open>The static text of the template of \<^verbatim>\<open>generateUserEmail\<close> before its first and after its last
  interpolation.\<close>

definition sdc_generateUserEmail_head :: string where
  \<open>sdc_generateUserEmail_head =
    ''\<newline>'' @
    ''    <!DOCTYPE html>\<newline>'' @
    ''    <html>\<newline>'' @
    ''    <head>\<newline>'' @
    ''      <meta charset="UTF-8">\<newline>'' @
    ''      <style>\<newline>'' @
    ''        body { font-family: Arial, sans-serif; line-height: 1.6; color: #333; }\<newline>'' @
    ''        .container { max-width: 600px; margin: 0 auto; padding: 20px; }\<newline>'' @
    ''        .header { color: #28a745; border-bottom: 1px solid #eee; padding-bottom: 10px; }\<newline>'' @
    ''        .footer { margin-top: 20px; font-size: 0.9em; color: #777; }\<newline>'' @
    ''      </style>\<newline>'' @
    ''    </head>\<newline>'' @
    ''    <body>\<newline>'' @
    ''      <div class="container">\<newline>'' @
    ''        <h2 class="header">Thank You for Contacting Us</h2>\<newline>'' @
    ''        <p>Dear ''\<close>

definition sdc_generateUserEmail_tail :: string where
  \<open>sdc_generateUserEmail_tail =
    ''</p>\<newline>'' @
    ''          <p><small>This is an automated message. Please do not reply directly to this email.</small></p>\<newline>'' @
    ''        </div>\<newline>'' @
    ''      </div>\<newline>'' @
    ''    </body>\<newline>'' @
    ''    </html>\<newline>'' @
    ''  ''\<close>

definition sdc_generateUserEmail :: "env \<Rightarrow> (nat \<Rightarrow> string) \<Rightarrow> submission \<Rightarrow> string" where
  \<open>sdc_generateUserEmail env toLocaleString submission =
    sdc_generateUserEmail_head @
    escapeHtml (sub_name submission) @
    '',</p>\<newline>'' @
    ''        <p>We've received your message and our team will review it shortly. Here's a summary of your submission:</p>\<newline>'' @
    ''        \<newline>'' @
    ''        <ul>\<newline>'' @
    ''          <li><strong>Reference ID:</strong> '' @
    sub_id submission @
    ''</li>\<newline>'' @
    ''          <li><strong>Submitted:</strong> '' @
    toLocaleString (sub_date submission) @
    ''</li>\<newline>'' @
    ''        </ul>\<newline>'' @
    ''        \<newline>'' @
    ''        <p>We typically respond within 24 hours. If you have urgent inquiries, please call our support line.</p>\<newline>'' @
    ''        \<newline>'' @
    ''        <div class="footer">\<newline>'' @
    ''          <p>Best regards,<br>'' @
    escapeHtml (env_or env ''EMAIL_FROM_NAME'' ''The Company Team'') @
    sdc_generateUserEmail_tail\<close>

subsection \<open>The store and its sweep\<close>

type_synonym store = "string \<rightharpoonup> submission"

definition SUBMISSION_TTL :: int where
  "SUBMISSION_TTL = 24 * 60 * 60 * 1000"

text \<open>The delay of the \<^verbatim>\<open>setInterval\<close> that runs the sweep.\<close>

definition SWEEP_INTERVAL :: nat where
  "SWEEP_INTERVAL = 60 * 60 * 1000"

text \<open>The body of the interval callback at time \<open>now\<close>: every entry of the map whose age is
  above the retention time is deleted.\<close>

definition sdc_sweep :: "nat \<Rightarrow> store \<Rightarrow> store" where
  "sdc_sweep now submissions =
     (\<lambda>id. case submissions id of
              None \<Rightarrow> None
            | Some submission \<Rightarrow>
                if int now - int (sub_date submission) > SUBMISSION_TTL then None
                else Some submission)"

subsection \<open>The transport\<close>

record sdc_transport =
  tc_pool :: bool
  tc_maxConnections :: nat
  tc_maxMessages :: nat
  tc_rateDelta :: nat
  tc_rateLimit :: nat
  tc_user :: string
  tc_pass :: string
  tc_service :: "string option"
  tc_host :: "string option"
  tc_port :: "int option"
  tc_secure :: "bool option"

text \<open>\<^verbatim>\<open>createTransporter\<close>; \<open>Inl\<close> is the \<^verbatim>\<open>Error\<close> it throws. \<^verbatim>\<open>parseInt\<close> is a parameter
  (\<open>None\<close> for \<^verbatim>\<open>NaN\<close>).\<close>

definition sdc_createTransporter ::
  "(string option \<Rightarrow> int option) \<Rightarrow> env \<Rightarrow> string + sdc_transport" where
  "sdc_createTransporter parseInt env =
     (if \<not> truthy (env ''EMAIL_USER'') \<or> \<not> truthy (env ''EMAIL_PASS'')
      then Inl ''Email credentials not configured''
      else
        let config = \<lparr>tc_pool = True, tc_maxConnections = 5, tc_maxMessages = 100,
                       tc_rateDelta = 1000, tc_rateLimit = 5,
                       tc_user = the_str (env ''EMAIL_USER''), tc_pass = the_str (env ''EMAIL_PASS''),
                       tc_service = None, tc_host = None, tc_port = None, tc_secure = None\<rparr>
        in Inr (if env ''EMAIL_SERVICE'' = Some ''gmail''
                then config\<lparr>tc_service := Some ''gmail''\<rparr>
                else config\<lparr>tc_host := env ''EMAIL_HOST'',
                            tc_port := parseInt (env ''EMAIL_PORT''),
                            tc_secure := Some (env ''EMAIL_SECURE'' = Some ''true'')\<rparr>))"

subsection \<open>Validation rules\<close>

record sdc_fields =
  f_name :: string
  f_email :: string
  f_phone :: "string option"

text \<open>\<^verbatim>\<open>/^[\d\s+()\-]*$/\<close>\<close>

definition sdc_phone_chars :: "string \<Rightarrow> bool" where
  "sdc_phone_chars s = (\<forall>c \<in> set s. is_digit c \<or> is_space c \<or> c \<in> set ''+()-'')"

definition sdc_contactValidationRules :: "validator \<Rightarrow> request \<Rightarrow> sdc_fields \<times> verror list" where
  "sdc_contactValidationRules lib req =
     (case body ''name''
             [Sanitizer (v_trim lib), Sanitizer (v_escape lib),
              Validator notEmpty ''Name is required'',
              Validator (isLength_max 100) ''Name must be less than 100 characters'']
             (body_name req) of
        (name, e1) \<Rightarrow>
     (case body ''email''
             [Sanitizer (v_trim lib), Sanitizer (v_normalizeEmail lib),
              Validator notEmpty ''Email is required'',
              Validator (v_isEmail lib) ''Email is invalid'',
              Validator (isLength_max 255) ''Email must be less than 255 characters'']
             (body_email req) of
        (email, e2) \<Rightarrow>
     (case body_optional ''phone''
             [Sanitizer (v_trim lib), Sanitizer (v_escape lib),
              Validator (isLength_max 20) ''Phone must be less than 20 characters'',
              Validator sdc_phone_chars ''Phone contains invalid characters'']
             (body_phone req) of
        (phone, e3) \<Rightarrow>
          (\<lparr>f_name = name, f_email = email, f_phone = phone\<rparr>, e1 @ e2 @ e3))))"

subsection \<open>The handler of \<^verbatim>\<open>POST /submit\<close>\<close>

record field_error =
  field :: string
  message :: string

record contact_data =
  data_id :: string
  data_name :: string
  data_email :: string

type_synonym sdc_response = "(field_error, contact_data) response"

text \<open>The record the handler builds once validation has passed. \<open>t_id\<close> and \<open>t_date\<close> are
  the two readings of the clock.\<close>

definition sdc_submission :: "sdc_fields \<Rightarrow> string \<Rightarrow> nat \<Rightarrow> nat \<Rightarrow> submission" where
  "sdc_submission flds ip t_id t_date =
     \<lparr>sub_id = toString_nat t_id, sub_name = f_name flds, sub_email = f_email flds,
      sub_phone = or_null (f_phone flds), sub_date = t_date, sub_status = pending,
      sub_ip = ip, sub_error = None\<rparr>"

text \<open>The handler up to its first \<^verbatim>\<open>await\<close> on the transport: either the answer to an invalid
  request, or the new record and the store that holds it.\<close>

definition sdc_begin ::
  "validator \<Rightarrow> nat \<Rightarrow> nat \<Rightarrow> request \<Rightarrow> store \<Rightarrow> sdc_response + submission \<times> store" where
  "sdc_begin lib t_id t_date req submissions =
     (case sdc_contactValidationRules lib req of
        (flds, errors) \<Rightarrow>
          if errors \<noteq> [] then
            Inl \<lparr>res_status = 400, res_success = False, res_message = Some ''Validation failed'',
                 res_errors = Some (map (\<lambda>err. \<lparr>field = err_path err, message = err_msg err\<rparr>)
                                        (onlyFirstError errors)),
                 res_data = None, res_error = None\<rparr>
          else
            let submission = sdc_submission flds (req_ip req) t_id t_date
            in Inr (submission, submissions(sub_id submission \<mapsto> submission)))"

definition sdc_mailOptions :: "env \<Rightarrow> (nat \<Rightarrow> string) \<Rightarrow> submission \<Rightarrow> mail \<times> mail" where
  \<open>sdc_mailOptions env toLocaleString submission =
     (\<lparr>mail_from = [CHR 0x22] @ env_or env ''EMAIL_FROM_NAME'' ''Company Support'' @ ''" <'' @
                    js_string (env ''EMAIL_USER'') @ ''>'',
       mail_to = ''emotionease@gmail.com'',
       mail_subject = ''New Contact Submission from '' @ sub_name submission,
       mail_html = sdc_generateAdminEmail toLocaleString submission,
       mail_priority = Some ''high''\<rparr>,
      \<lparr>mail_from = [CHR 0x22] @ env_or env ''EMAIL_FROM_NAME'' ''Company Support'' @ ''" <'' @
                    js_string (env ''EMAIL_USER'') @ ''>'',
       mail_to = sub_email submission,
       mail_subject = env_or env ''USER_EMAIL_SUBJECT'' ''Thank you for contacting us'',
       mail_html = sdc_generateUserEmail env toLocaleString submission,
       mail_priority = None\<rparr>)\<close>

text \<open>The two sends: the rejection of the user mail is caught.\<close>

definition sdc_dispatch :: "(mail \<Rightarrow> unit settled) \<Rightarrow> mail \<times> mail \<Rightarrow> (unit \<times> unit) settled" where
  "sdc_dispatch sendMail mailOptions =
     promise_all2 False (sendMail (fst mailOptions)) (catch_log (sendMail (snd mailOptions)))"

text \<open>The handler after the sends have settled: the rest of the \<^verbatim>\<open>try\<close> block, or the
  \<^verbatim>\<open>catch\<close> block. \<open>submissions\<close> is the store as it is at that moment.\<close>

definition sdc_finish ::
  "env \<Rightarrow> (unit \<times> unit) settled \<Rightarrow> submission \<Rightarrow> store \<Rightarrow> store \<times> sdc_response" where
  "sdc_finish env sent submission submissions =
     (case sent of
        Inr delivered \<Rightarrow>
          (let submission' = submission\<lparr>sub_status := completed\<rparr>
           in (submissions(sub_id submission \<mapsto> submission'),
               \<lparr>res_status = 200, res_success = True,
                res_message = Some ''Thank you for contacting us! We will get back to you soon.'',
                res_errors = None,
                res_data = Some \<lparr>data_id = sub_id submission, data_name = sub_name submission',
                                  data_email = sub_email submission'\<rparr>,
                res_error = None\<rparr>))
      | Inl error_message \<Rightarrow>
          (let submission' = submission\<lparr>sub_status := failed, sub_error := Some error_message\<rparr>;
               statusCode = (if includes_str error_message ''credentials'' then 503 else 500);
               userMessage = (if includes_str error_message ''credentials''
                              then ''Service temporarily unavailable''
                              else ''Failed to process your submission. Please try again later.'')
           in (submissions(sub_id submission \<mapsto> submission'),
               \<lparr>res_status = statusCode, res_success = False, res_message = Some userMessage,
                res_errors = None, res_data = None,
                res_error = (if env ''NODE_ENV'' = Some ''development''
                             then Some error_message else None)\<rparr>)))"

text \<open>The whole handler, run without another request or the sweep in between.\<close>

definition sdc_submit ::
  "env \<Rightarrow> validator \<Rightarrow> (nat \<Rightarrow> string) \<Rightarrow> (mail \<Rightarrow> unit settled) \<Rightarrow> nat \<Rightarrow> nat \<Rightarrow>
   request \<Rightarrow> store \<Rightarrow> store \<times> sdc_response" where
  "sdc_submit env lib toLocaleString sendMail t_id t_date req submissions =
     (case sdc_begin lib t_id t_date req submissions of
        Inl rejected \<Rightarrow> (submissions, rejected)
      | Inr (submission, submissions') \<Rightarrow>
          sdc_finish env
            (sdc_dispatch sendMail (sdc_mailOptions env toLocaleString submission))
            submission submissions')"


section \<open>The earlier sub-domain router (\<^verbatim>\<open>unnamed/part_002\<close>)\<close>

record p2_submission =
  p2_id :: string
  p2_name :: string
  p2_email :: string
  p2_phone :: "string option"
  p2_date :: nat
  p2_status :: status

text \<open>The static text of the template of \<^verbatim>\<open>generateAdminEmail\<close> before its first and after its last
  interpolation.\<close>

definition p2_generateAdminEmail_head :: string where
  \<open>p2_generateAdminEmail_head =
    ''\<newline>'' @
    ''    <!DOCTYPE html>\<newline>'' @
    ''    <html>\<newline>'' @
    ''    <head>\<newline>'' @
    ''      <style>\<newline>'' @
    ''        body { font-family: Arial, sans-serif; line-height: 1.6; color: #333; }\<newline>'' @
    ''        .container { max-width: 600px; margin: 0 auto; padding: 20px; }\<newline>'' @
    ''        .header { color: #28a745; border-bottom: 1px solid #eee; padding-bottom: 10px; }\<newline>'' @
    ''        .footer { margin-top: 20px; font-size: 0.9em; color: #777; }\<newline>'' @
    ''        .info { margin: 15px 0; }\<newline>'' @
    ''      </style>\<newline>'' @
    ''    </head>\<newline>'' @
    ''    <body>\<newline>'' @
    ''      <div class="container">\<newline>'' @
    ''        <h2 class="header">New Contact Submission</h2>\<newline>'' @
    ''        <div class="info">\<newline>'' @
    ''          <p><strong>Name:</strong> ''\<close>

definition p2_generateAdminEmail_tail :: string where
  \<open>p2_generateAdminEmail_tail =
    ''</p>\<newline>'' @
    ''        </div>\<newline>'' @
    ''        <p>Please respond to this inquiry within 24 hours.</p>\<newline>'' @
    ''        <div class="footer">\<newline>'' @
    ''          <p>This is an automated message. Please do not reply directly to this email.</p>\<newline>'' @
    ''        </div>\<newline>'' @
    ''      </div>\<newline>'' @
    ''    </body>\<newline>'' @
    ''    </html>\<newline>'' @
    ''  ''\<close>

definition p2_generateAdminEmail :: "(nat \<Rightarrow> string) \<Rightarrow> p2_submission \<Rightarrow> string" where
  \<open>p2_generateAdminEmail toLocaleString submission =
    p2_generateAdminEmail_head @
    p2_name submission @
    ''</p>\<newline>'' @
    ''          <p><strong>Email:</strong> <a href="mailto:'' @
    p2_email submission @
    ''">'' @
    p2_email submission @
    ''</a></p>\<newline>'' @
    ''          '' @
    (if truthy (p2_phone submission)
     then ''<p><strong>Phone:</strong> <a href="tel:'' @ safePhone (p2_phone submission) @ ''">'' @
          the_str (p2_phone submission) @ ''</a></p>''
     else '''') @
    ''\<newline>'' @
    ''          <p><strong>Date:</strong> '' @
    toLocaleString (p2_date submission) @
    ''</p>\<newline>'' @
    ''          <p><strong>Reference ID:</strong> '' @
    p2_id submission @
    p2_generateAdminEmail_tail\<close>

text \<open>The static text of the template of \<^verbatim>\<open>generateUserEmail\<close> before its first and after its last
  interpolation.\<close>

definition p2_generateUserEmail_head :: string where
  \<open>p2_generateUserEmail_head =
    ''\<newline>'' @
    ''    <!DOCTYPE html>\<newline>'' @
    ''    <html>\<newline>'' @
    ''    <head>\<newline>'' @
    ''      <style>\<newline>'' @
    ''        body { font-family: Arial, sans-serif; line-height: 1.6; color: #333; }\<newline>'' @
    ''        .container { max-width: 600px; margin: 0 auto; padding: 20px; }\<newline>'' @
    ''        .header { color: #28a745; border-bottom: 1px solid #eee; padding-bottom: 10px; }\<newline>'' @
    ''        .footer { margin-top: 20px; font-size: 0.9em; color: #777; }\<newline>'' @
    ''      </style>\<newline>'' @
    ''    </head>\<newline>'' @
    ''    <body>\<newline>'' @
    ''      <div class="container">\<newline>'' @
    ''        <h2 class="header">Thank You for Contacting Us</h2>\<newline>'' @
    ''        <p>Dear ''\<close>

definition p2_generateUserEmail_tail :: string where
  \<open>p2_generateUserEmail_tail =
    ''</li>\<newline>'' @
    ''        </ul>\<newline>'' @
    ''        \<newline>'' @
    ''        <p>We typically respond within 24 hours. If you have urgent inquiries, please call our support line.</p>\<newline>'' @
    ''        \<newline>'' @
    ''        <div class="footer">\<newline>'' @
    ''          <p>Best regards,<br>The Company Team</p>\<newline>'' @
    ''          <p><small>This is an automated message. Please do not reply directly to this email.</small></p>\<newline>'' @
    ''        </div>\<newline>'' @
    ''      </div>\<newline>'' @
    ''    </body>\<newline>'' @
    ''    </html>\<newline>'' @
    ''  ''\<close>

definition p2_generateUserEmail :: "(nat \<Rightarrow> string) \<Rightarrow> p2_submission \<Rightarrow> string" where
  \<open>p2_generateUserEmail toLocaleString submission =
    p2_generateUserEmail_head @
    p2_name submission @
    '',</p>\<newline>'' @
    ''        <p>We've received your message and our team will review it shortly. Here's a summary of your submission:</p>\<newline>'' @
    ''        \<newline>'' @
    ''        <ul>\<newline>'' @
    ''          <li><strong>Reference ID:</strong> '' @
    p2_id submission @
    ''</li>\<newline>'' @
    ''          <li><strong>Submitted:</strong> '' @
    toLocaleString (p2_date submission) @
    p2_generateUserEmail_tail\<close>

record p2_transport =
  p2t_service :: string
  p2t_user :: string
  p2t_pass :: string
  p2t_pool :: bool
  p2t_rateLimit :: bool
  p2t_maxConnections :: nat
  p2t_maxMessages :: nat

definition p2_createTransporter :: "env \<Rightarrow> string + p2_transport" where
  "p2_createTransporter env =
     (if \<not> truthy (env ''EMAIL_USER'') \<or> \<not> truthy (env ''EMAIL_PASS'')
      then Inl ''Email credentials not configured''
      else Inr \<lparr>p2t_service = ''gmail'',
                p2t_user = the_str (env ''EMAIL_USER''), p2t_pass = the_str (env ''EMAIL_PASS''),
                p2t_pool = True, p2t_rateLimit = True,
                p2t_maxConnections = 1, p2t_maxMessages = 5\<rparr>)"

text \<open>\<^verbatim>\<open>/^[0-9+() -]*$/\<close>\<close>

definition p2_phone_chars :: "string \<Rightarrow> bool" where
  "p2_phone_chars s = (\<forall>c \<in> set s. is_digit c \<or> c \<in> set ''+() -'')"

definition p2_contactValidationRules :: "validator \<Rightarrow> request \<Rightarrow> sdc_fields \<times> verror list" where
  "p2_contactValidationRules lib req =
     (case body ''name''
             [Validator notEmpty ''Name is required'',
              Sanitizer (v_trim lib), Sanitizer (v_escape lib),
              Validator (isLength_max 100) ''Name must be less than 100 characters'']
             (body_name req) of
        (name, e1) \<Rightarrow>
     (case body ''email''
             [Validator notEmpty ''Email is required'',
              Validator (v_isEmail lib) ''Email is invalid'',
              Sanitizer (v_normalizeEmail lib),
              Validator (isLength_max 255) ''Email must be less than 255 characters'']
             (body_email req) of
        (email, e2) \<Rightarrow>
     (case body_optional ''phone''
             [Sanitizer (v_trim lib), Sanitizer (v_escape lib),
              Validator (isLength_max 20) ''Phone must be less than 20 characters'',
              Validator p2_phone_chars ''Phone contains invalid characters'']
             (body_phone req) of
        (phone, e3) \<Rightarrow>
          (\<lparr>f_name = name, f_email = email, f_phone = phone\<rparr>, e1 @ e2 @ e3))))"

type_synonym p2_response = "(verror, contact_data) response"

definition p2_new_submission :: "sdc_fields \<Rightarrow> nat \<Rightarrow> nat \<Rightarrow> p2_submission" where
  "p2_new_submission flds t_id t_date =
     \<lparr>p2_id = toString_nat t_id, p2_name = f_name flds, p2_email = f_email flds,
      p2_phone = or_null (f_phone flds), p2_date = t_date, p2_status = pending\<rparr>"

text \<open>The handler up to its \<^verbatim>\<open>await\<close> on the transport. The store is an array; the new record
  is pushed, and the handler keeps the object, which is the array's element at the returned
  index.\<close>

definition p2_begin ::
  "validator \<Rightarrow> nat \<Rightarrow> nat \<Rightarrow> request \<Rightarrow> p2_submission list \<Rightarrow>
   p2_response + p2_submission \<times> nat \<times> p2_submission list" where
  "p2_begin lib t_id t_date req submissions =
     (case p2_contactValidationRules lib req of
        (flds, errors) \<Rightarrow>
          if errors \<noteq> [] then
            Inl \<lparr>res_status = 400, res_success = False, res_message = None,
                 res_errors = Some (onlyFirstError errors), res_data = None, res_error = None\<rparr>
          else
            let submission = p2_new_submission flds t_id t_date
            in Inr (submission, length submissions, submissions @ [submission]))"

definition p2_mailOptions :: "env \<Rightarrow> (nat \<Rightarrow> string) \<Rightarrow> p2_submission \<Rightarrow> mail \<times> mail" where
  \<open>p2_mailOptions env toLocaleString submission =
     (\<lparr>mail_from = ''"Company Support" <'' @ js_string (env ''EMAIL_USER'') @ ''>'',
       mail_to = js_string (env ''ADMIN_EMAIL''),
       mail_subject = ''New Contact Submission from '' @ p2_name submission,
       mail_html = p2_generateAdminEmail toLocaleString submission,
       mail_priority = Some ''high''\<rparr>,
      \<lparr>mail_from = ''"Company Support" <'' @ js_string (env ''EMAIL_USER'') @ ''>'',
       mail_to = p2_email submission,
       mail_subject = ''Thank you for contacting us'',
       mail_html = p2_generateUserEmail toLocaleString submission,
       mail_priority = None\<rparr>)\<close>

text \<open>The rest of the \<^verbatim>\<open>try\<close> block up to the end of the \<^verbatim>\<open>await\<close>: the check of
  \<^verbatim>\<open>ADMIN_EMAIL\<close>, which throws, then both sends, neither of them caught.\<close>

definition p2_dispatch ::
  "env \<Rightarrow> (mail \<Rightarrow> unit settled) \<Rightarrow> bool \<Rightarrow> mail \<times> mail \<Rightarrow> (unit \<times> unit) settled" where
  "p2_dispatch env sendMail user_first mailOptions =
     (if \<not> truthy (env ''ADMIN_EMAIL'') then Inl ''Admin email not configured''
      else promise_all2 user_first (sendMail (fst mailOptions)) (sendMail (snd mailOptions)))"

text \<open>After the sends have settled. The assignment to \<^verbatim>\<open>submission.status\<close> changes the object
  that the array holds at index \<open>i\<close>.\<close>

definition p2_finish ::
  "env \<Rightarrow> (unit \<times> unit) settled \<Rightarrow> p2_submission \<Rightarrow> nat \<Rightarrow> p2_submission list \<Rightarrow>
   p2_submission list \<times> p2_response" where
  "p2_finish env sent submission i submissions =
     (case sent of
        Inr delivered \<Rightarrow>
          (submissions[i := submission\<lparr>p2_status := completed\<rparr>],
           \<lparr>res_status = 200, res_success = True,
            res_message = Some ''Thank you for contacting us! We will get back to you soon.'',
            res_errors = None,
            res_data = Some \<lparr>data_id = p2_id submission, data_name = p2_name submission,
                              data_email = p2_email submission\<rparr>,
            res_error = None\<rparr>)
      | Inl error_message \<Rightarrow>
          (let statusCode = (if includes_str error_message ''credentials'' then 500 else 500)
           in (submissions[i := submission\<lparr>p2_status := failed\<rparr>],
               \<lparr>res_status = statusCode, res_success = False,
                res_message = Some (if includes_str error_message ''credentials''
                                    then ''Service temporarily unavailable''
                                    else ''Failed to process your submission. Please try again later.''),
                res_errors = None, res_data = None,
                res_error = (if env ''NODE_ENV'' = Some ''development''
                             then Some error_message else None)\<rparr>)))"

definition p2_submit ::
  "env \<Rightarrow> validator \<Rightarrow> (nat \<Rightarrow> string) \<Rightarrow> (mail \<Rightarrow> unit settled) \<Rightarrow> bool \<Rightarrow> nat \<Rightarrow> nat \<Rightarrow>
   request \<Rightarrow> p2_submission list \<Rightarrow> p2_submission list \<times> p2_response" where
  "p2_submit env lib toLocaleString sendMail user_first t_id t_date req submissions =
     (case p2_begin lib t_id t_date req submissions of
        Inl rejected \<Rightarrow> (submissions, rejected)
      | Inr (submission, i, submissions') \<Rightarrow>
          p2_finish env
            (p2_dispatch env sendMail user_first (p2_mailOptions env toLocaleString submission))
            submission i submissions')"


section \<open>The basic contact router (\<^verbatim>\<open>unnamed/part_000\<close>)\<close>

record p0_submission =
  p0_id :: nat
  p0_name :: string
  p0_email :: string
  p0_phone :: "string option"
  p0_category :: string
  p0_age :: "string option"
  p0_message :: string
  p0_date :: nat

text \<open>The static text of the template of \<^verbatim>\<open>generateAdminEmail\<close> before its first and after its last
  interpolation.\<close>

definition p0_generateAdminEmail_head :: string where
  \<open>p0_generateAdminEmail_head =
    ''\<newline>'' @
    ''    <!DOCTYPE html>\<newline>'' @
    ''    <html lang="en">\<newline>'' @
    ''    <head>\<newline>'' @
    ''      <meta charset="UTF-8">\<newline>'' @
    ''      <meta name="viewport" content="width=device-width, initial-scale=1.0">\<newline>'' @
    ''      <title>New Contact Submission</title>\<newline>'' @
    ''      <link href="https://cdn.jsdelivr.net/npm/bootstrap@5.3.0/dist/css/bootstrap.min.css" rel="stylesheet">\<newline>'' @
    ''      <style>\<newline>'' @
    ''        .email-container {\<newline>'' @
    ''          max-width: 600px;\<newline>'' @
    ''          margin: 0 auto;\<newline>'' @
    ''          font-family: 'Segoe UI', Tahoma, Geneva, Verdana, sans-serif;\<newline>'' @
    ''        }\<newline>'' @
    ''        .header {\<newline>'' @
    ''          background-color: #4a76a8;\<newline>'' @
    ''          color: white;\<newline>'' @
    ''          padding: 20px;\<newline>'' @
    ''          border-radius: 5px 5px 0 0;\<newline>'' @
    ''        }\<newline>'' @
    ''        .content {\<newline>'' @
    ''          padding: 20px;\<newline>'' @
    ''          background-color: #f8f9fa;\<newline>'' @
    ''          border-radius: 0 0 5px 5px;\<newline>'' @
    ''        }\<newline>'' @
    ''        .detail-item {\<newline>'' @
    ''          margin-bottom: 15px;\<newline>'' @
    ''        }\<newline>'' @
    ''        .message-box {\<newline>'' @
    ''          background-color: white;\<newline>'' @
    ''          border-left: 4px solid #4a76a8;\<newline>'' @
    ''          padding: 15px;\<newline>'' @
    ''          margin: 15px 0;\<newline>'' @
    ''        }\<newline>'' @
    ''        .footer {\<newline>'' @
    ''          margin-top: 20px;\<newline>'' @
    ''          padding-top: 20px;\<newline>'' @
    ''          border-top: 1px solid #dee2e6;\<newline>'' @
    ''          font-size: 0.9em;\<newline>'' @
    ''          color: #6c757d;\<newline>'' @
    ''        }\<newline>'' @
    ''      </style>\<newline>'' @
    ''    </head>\<newline>'' @
    ''    <body>\<newline>'' @
    ''      <div class="email-container">\<newline>'' @
    ''        <div class="header text-center">\<newline>'' @
    ''          <h2>New Contact Form Submission</h2>\<newline>'' @
    ''          <p class="mb-0">EmotionEase Support</p>\<newline>'' @
    ''        </div>\<newline>'' @
    ''        \<newline>'' @
    ''        <div class="content">\<newline>'' @
    ''          <div class="alert alert-primary" role="alert">\<newline>'' @
    ''            <strong>Action Required:</strong> Please respond to this inquiry within 24-48 hours.\<newline>'' @
    ''          </div>\<newline>'' @
    ''          \<newline>'' @
    ''          <div class="card mb-4">\<newline>'' @
    ''            <div class="card-header bg-light">\<newline>'' @
    ''              <h5 class="mb-0">Submission Details</h5>\<newline>'' @
    ''            </div>\<newline>'' @
    ''            <div class="card-body">\<newline>'' @
    ''              <table class="table table-bordered">\<newline>'' @
    ''                <tbody>\<newline>'' @
    ''                  <tr>\<newline>'' @
    ''                    <th scope="row" style="width: 30%">Name</th>\<newline>'' @
    ''                    <td>''\<close>

definition p0_generateAdminEmail_tail :: string where
  \<open>p0_generateAdminEmail_tail =
    '' EmotionEase. All rights reserved.</p>\<newline>'' @
    ''          </div>\<newline>'' @
    ''        </div>\<newline>'' @
    ''      </div>\<newline>'' @
    ''    </body>\<newline>'' @
    ''    </html>\<newline>'' @
    ''  ''\<close>

definition p0_generateAdminEmail :: "(nat \<Rightarrow> string) \<Rightarrow> string \<Rightarrow> p0_submission \<Rightarrow> string" where
  \<open>p0_generateAdminEmail toLocaleString fullYear submission =
    p0_generateAdminEmail_head @
    p0_name submission @
    ''</td>\<newline>'' @
    ''                  </tr>\<newline>'' @
    ''                  <tr>\<newline>'' @
    ''                    <th scope="row" style="width: 30%"Age</th>\<newline>'' @
    ''                    <td>'' @
    js_string (p0_age submission) @
    ''</td>\<newline>'' @
    ''                  </tr>\<newline>'' @
    ''                  <tr>\<newline>'' @
    ''                    <th scope="row">Email</th>\<newline>'' @
    ''                    <td><a href="mailto:'' @
    p0_email submission @
    ''">'' @
    p0_email submission @
    ''</a></td>\<newline>'' @
    ''                  </tr>\<newline>'' @
    ''                  '' @
    (if truthy (p0_phone submission)
     then
      ''\<newline>'' @
      ''                  <tr>\<newline>'' @
      ''                    <th scope="row">Phone</th>\<newline>'' @
      ''                    <td><a href="tel:'' @
      the_str (p0_phone submission) @
      ''">'' @
      the_str (p0_phone submission) @
      ''</a></td>\<newline>'' @
      ''                  </tr>\<newline>'' @
      ''                  ''
     else '''') @
    ''\<newline>'' @
    ''                  <tr>\<newline>'' @
    ''                    <th scope="row">Category</th>\<newline>'' @
    ''                    <td><span class="badge bg-info">'' @
    p0_category submission @
    ''</span></td>\<newline>'' @
    ''                  </tr>\<newline>'' @
    ''\<newline>'' @
    ''                  <tr>\<newline>'' @
    ''                    <th scope="row">Date</th>\<newline>'' @
    ''                    <td>'' @
    toLocaleString (p0_date submission) @
    ''</td>\<newline>'' @
    ''                  </tr>\<newline>'' @
    ''                </tbody>\<newline>'' @
    ''              </table>\<newline>'' @
    ''            </div>\<newline>'' @
    ''          </div>\<newline>'' @
    ''          \<newline>'' @
    ''          <div class="card">\<newline>'' @
    ''            <div class="card-header bg-light">\<newline>'' @
    ''              <h5 class="mb-0">Message</h5>\<newline>'' @
    ''            </div>\<newline>'' @
    ''            <div class="card-body message-box">\<newline>'' @
    ''              <p>'' @
    replaceAll (CHR ''\<newline>'') ''<br>'' (p0_message submission) @
    ''</p>\<newline>'' @
    ''            </div>\<newline>'' @
    ''          </div>\<newline>'' @
    ''          \<newline>'' @
    ''          <div class="text-center mt-4">\<newline>'' @
    ''            <a href="mailto:'' @
    p0_email submission @
    ''" class="btn btn-primary">Reply to '' @
    p0_name submission @
    ''</a>\<newline>'' @
    ''          </div>\<newline>'' @
    ''          \<newline>'' @
    ''          <div class="footer text-center">\<newline>'' @
    ''            <p>&copy; '' @
    fullYear @
    p0_generateAdminEmail_tail\<close>

text \<open>The static text of the template of \<^verbatim>\<open>generateUserEmail\<close> before its first and after its last
  interpolation.\<close>

definition p0_generateUserEmail_head :: string where
  \<open>p0_generateUserEmail_head =
    ''\<newline>'' @
    ''    <!DOCTYPE html>\<newline>'' @
    ''    <html lang="en">\<newline>'' @
    ''    <head>\<newline>'' @
    ''      <meta charset="UTF-8">\<newline>'' @
    ''      <meta name="viewport" content="width=device-width, initial-scale=1.0">\<newline>'' @
    ''      <title>Thank You for Contacting Us</title>\<newline>'' @
    ''      <link href="https://cdn.jsdelivr.net/npm/bootstrap@5.3.0/dist/css/bootstrap.min.css" rel="stylesheet">\<newline>'' @
    ''      <style>\<newline>'' @
    ''        .email-container {\<newline>'' @
    ''          max-width: 600px;\<newline>'' @
    ''          margin: 0 auto;\<newline>'' @
    ''          font-family: 'Segoe UI', Tahoma, Geneva, Verdana, sans-serif;\<newline>'' @
    ''        }\<newline>'' @
    ''        .header {\<newline>'' @
    ''          background-color: #4a76a8;\<newline>'' @
    ''          color: white;\<newline>'' @
    ''          padding: 20px;\<newline>'' @
    ''          border-radius: 5px 5px 0 0;\<newline>'' @
    ''        }\<newline>'' @
    ''        .content {\<newline>'' @
    ''          padding: 20px;\<newline>'' @
    ''          background-color: #f8f9fa;\<newline>'' @
    ''          border-radius: 0 0 5px 5px;\<newline>'' @
    ''        }\<newline>'' @
    ''        .message-box {\<newline>'' @
    ''          background-color: white;\<newline>'' @
    ''          border-left: 4px solid #4a76a8;\<newline>'' @
    ''          padding: 15px;\<newline>'' @
    ''          margin: 15px 0;\<newline>'' @
    ''        }\<newline>'' @
    ''        .footer {\<newline>'' @
    ''          margin-top: 20px;\<newline>'' @
    ''          padding-top: 20px;\<newline>'' @
    ''          border-top: 1px solid #dee2e6;\<newline>'' @
    ''          font-size: 0.9em;\<newline>'' @
    ''          color: #6c757d;\<newline>'' @
    ''        }\<newline>'' @
    ''      </style>\<newline>'' @
    ''    </head>\<newline>'' @
    ''    <body>\<newline>'' @
    ''      <div class="email-container">\<newline>'' @
    ''        <div class="header text-center">\<newline>'' @
    ''          <h2>Thank You for Contacting EmotionEase</h2>\<newline>'' @
    ''          <p class="mb-0">We appreciate you reaching out to us</p>\<newline>'' @
    ''        </div>\<newline>'' @
    ''        \<newline>'' @
    ''        <div class="content">\<newline>'' @
    ''          <div class="alert alert-success" role="alert">\<newline>'' @
    ''            <h4 class="alert-heading">Hello, ''\<close>

definition p0_generateUserEmail_tail :: string where
  \<open>p0_generateUserEmail_tail =
    '' EmotionEase. All rights reserved.</p>\<newline>'' @
    ''          </div>\<newline>'' @
    ''        </div>\<newline>'' @
    ''      </div>\<newline>'' @
    ''    </body>\<newline>'' @
    ''    </html>\<newline>'' @
    ''  ''\<close>

definition p0_generateUserEmail :: "(nat \<Rightarrow> string) \<Rightarrow> string \<Rightarrow> p0_submission \<Rightarrow> string" where
  \<open>p0_generateUserEmail toLocaleString fullYear submission =
    p0_generateUserEmail_head @
    p0_name submission @
    ''!</h4>\<newline>'' @
    ''            <p>We've received your message regarding <strong>'' @
    p0_category submission @
    ''</strong> and our team will get back to you soon.</p>\<newline>'' @
    ''          </div>\<newline>'' @
    ''          \<newline>'' @
    ''          <div class="card mb-4">\<newline>'' @
    ''            <div class="card-header bg-light">\<newline>'' @
    ''              <h5 class="mb-0">Your Submission Details</h5>\<newline>'' @
    ''            </div>\<newline>'' @
    ''            <div class="card-body">\<newline>'' @
    ''              <table class="table table-bordered">\<newline>'' @
    ''                <tbody>\<newline>'' @
    ''                  <tr>\<newline>'' @
    ''                    <th scope="row" style="width: 30%">Reference ID</th>\<newline>'' @
    ''                    <td>'' @
    toString_nat (p0_id submission) @
    ''</td>\<newline>'' @
    ''                  </tr>\<newline>'' @
    ''                  <tr>\<newline>'' @
    ''                    <th scope="row">Category</th>\<newline>'' @
    ''                    <td><span class="badge bg-info">'' @
    p0_category submission @
    ''</span></td>\<newline>'' @
    ''                  </tr>\<newline>'' @
    ''                  <tr>\<newline>'' @
    ''                    <th scope="row">Age</th>\<newline>'' @
    ''                    <td><span class="badge bg-info">'' @
    js_string (p0_age submission) @
    ''</span></td>\<newline>'' @
    ''                  </tr>\<newline>'' @
    ''                  <tr>\<newline>'' @
    ''                    <th scope="row">Date Submitted</th>\<newline>'' @
    ''                    <td>'' @
    toLocaleString (p0_date submission) @
    ''</td>\<newline>'' @
    ''                  </tr>\<newline>'' @
    ''                </tbody>\<newline>'' @
    ''              </table>\<newline>'' @
    ''            </div>\<newline>'' @
    ''          </div>\<newline>'' @
    ''          \<newline>'' @
    ''          <div class="card">\<newline>'' @
    ''            <div class="card-header bg-light">\<newline>'' @
    ''              <h5 class="mb-0">Your Message</h5>\<newline>'' @
    ''            </div>\<newline>'' @
    ''            <div class="card-body message-box">\<newline>'' @
    ''              <p>'' @
    replaceAll (CHR ''\<newline>'') ''<br>'' (p0_message submission) @
    ''</p>\<newline>'' @
    ''            </div>\<newline>'' @
    ''          </div>\<newline>'' @
    ''          \<newline>'' @
    ''          <div class="mt-4">\<newline>'' @
    ''            <h5>What Happens Next?</h5>\<newline>'' @
    ''            <ol>\<newline>'' @
    ''              <li>Our team will review your message</li>\<newline>'' @
    ''              <li>We'll respond to you within 1-2 business days</li>\<newline>'' @
    ''              <li>For urgent matters, please call our support line</li>\<newline>'' @
    ''            </ol>\<newline>'' @
    ''          </div>\<newline>'' @
    ''          \<newline>'' @
    ''          <div class="footer text-center">\<newline>'' @
    ''            <p>This is an automated confirmation. Please do not reply to this email.</p>\<newline>'' @
    ''            <p>Need immediate assistance? <a href="mailto:support@emotionease.in">Contact our support team</a></p>\<newline>'' @
    ''            <p>&copy; '' @
    fullYear @
    p0_generateUserEmail_tail\<close>

record gmail_transport =
  gt_service :: string
  gt_user :: "string option"
  gt_pass :: "string option"

text \<open>The module builds its transport from the environment as it is.\<close>

definition p0_transporter :: "env \<Rightarrow> string + gmail_transport" where
  "p0_transporter env =
     Inr \<lparr>gt_service = ''gmail'', gt_user = env ''EMAIL_USER'', gt_pass = env ''EMAIL_PASS''\<rparr>"

record p0_fields =
  pf_name :: string
  pf_email :: string
  pf_category :: string
  pf_message :: string

definition p0_contactValidationRules :: "validator \<Rightarrow> request \<Rightarrow> p0_fields \<times> verror list" where
  "p0_contactValidationRules lib req =
     (case body ''name''
             [Validator notEmpty ''Name is required'',
              Sanitizer (v_trim lib), Sanitizer (v_escape lib)]
             (body_name req) of
        (name, e1) \<Rightarrow>
     (case body ''email''
             [Validator notEmpty ''Email is required'',
              Validator (v_isEmail lib) ''Email is invalid'',
              Sanitizer (v_normalizeEmail lib)]
             (body_email req) of
        (email, e2) \<Rightarrow>
     (case body ''category''
             [Validator notEmpty ''Category is required'',
              Sanitizer (v_trim lib), Sanitizer (v_escape lib)]
             (body_category req) of
        (category, e3) \<Rightarrow>
     (case body ''message''
             [Validator notEmpty ''Message is required'',
              Sanitizer (v_trim lib), Sanitizer (v_escape lib)]
             (body_message req) of
        (msg, e4) \<Rightarrow>
          (\<lparr>pf_name = name, pf_email = email, pf_category = category, pf_message = msg\<rparr>,
           e1 @ e2 @ e3 @ e4)))))"

type_synonym p0_response = "(verror, p0_submission) response"

text \<open>\<^verbatim>\<open>phone\<close> and \<^verbatim>\<open>age\<close> are read from the body as they were sent: no chain names them.\<close>

definition p0_new_submission :: "p0_fields \<Rightarrow> request \<Rightarrow> nat \<Rightarrow> nat \<Rightarrow> p0_submission" where
  "p0_new_submission flds req t_id t_date =
     \<lparr>p0_id = t_id, p0_name = pf_name flds, p0_email = pf_email flds,
      p0_phone = or_null (body_phone req), p0_category = pf_category flds,
      p0_age = body_age req, p0_message = pf_message flds, p0_date = t_date\<rparr>"

definition p0_mailOptions ::
  "env \<Rightarrow> (nat \<Rightarrow> string) \<Rightarrow> string \<Rightarrow> p0_submission \<Rightarrow> mail \<times> mail" where
  \<open>p0_mailOptions env toLocaleString fullYear submission =
     (\<lparr>mail_from = ''"EmotionEase Support" <'' @ js_string (env ''EMAIL_USER'') @ ''>'',
       mail_to = ''emotionease@gmail.com'',
       mail_subject = ''New Contact Form Submission - '' @ p0_category submission,
       mail_html = p0_generateAdminEmail toLocaleString fullYear submission,
       mail_priority = None\<rparr>,
      \<lparr>mail_from = ''"EmotionEase Support" <'' @ js_string (env ''EMAIL_USER'') @ ''>'',
       mail_to = p0_email submission,
       mail_subject = ''Thank you for contacting EmotionEase'',
       mail_html = p0_generateUserEmail toLocaleString fullYear submission,
       mail_priority = None\<rparr>)\<close>

text \<open>The two sends are awaited one after the other: the user mail is sent only when the
  admin mail went out.\<close>

definition p0_dispatch :: "(mail \<Rightarrow> unit settled) \<Rightarrow> mail \<times> mail \<Rightarrow> unit settled" where
  "p0_dispatch sendMail mailOptions =
     (case sendMail (fst mailOptions) of
        Inl e \<Rightarrow> Inl e
      | Inr sent_admin \<Rightarrow> sendMail (snd mailOptions))"

text \<open>The handler of \<^verbatim>\<open>POST /submit\<close>.\<close>

definition p0_submit ::
  "env \<Rightarrow> validator \<Rightarrow> (nat \<Rightarrow> string) \<Rightarrow> string \<Rightarrow> (mail \<Rightarrow> unit settled) \<Rightarrow> nat \<Rightarrow> nat \<Rightarrow>
   request \<Rightarrow> p0_submission list \<Rightarrow> p0_submission list \<times> p0_response" where
  "p0_submit env lib toLocaleString fullYear sendMail t_id t_date req submissions =
     (case p0_contactValidationRules lib req of
        (flds, errors) \<Rightarrow>
          if errors \<noteq> [] then
            (submissions,
             \<lparr>res_status = 400, res_success = False, res_message = None,
              res_errors = Some errors, res_data = None, res_error = None\<rparr>)
          else
            let submission = p0_new_submission flds req t_id t_date;
                submissions' = submissions @ [submission];
                mailOptions = p0_mailOptions env toLocaleString fullYear submission
            in (case p0_dispatch sendMail mailOptions of
                 Inr sent_user \<Rightarrow>
                   (submissions',
                    \<lparr>res_status = 200, res_success = True,
                     res_message = Some ''Thank you for contacting us! We will get back to you soon.'',
                     res_errors = None, res_data = Some submission, res_error = None\<rparr>)
               | Inl error_message \<Rightarrow>
                   (submissions',
                    \<lparr>res_status = 500, res_success = False,
                     res_message = Some ''Form submitted but failed to send confirmation email'',
                     res_errors = None, res_data = None, res_error = Some error_message\<rparr>)))"

text \<open>\<^verbatim>\<open>GET /submissions\<close>\<close>

record 'a listing =
  list_status :: nat
  list_success :: bool
  list_count :: nat
  list_data :: "'a list"

definition p0_get_submissions :: "p0_submission list \<Rightarrow> p0_submission listing" where
  "p0_get_submissions submissions =
     \<lparr>list_status = 200, list_success = True, list_count = length submissions,
      list_data = submissions\<rparr>"


section \<open>\<^verbatim>\<open>routes/SignUp.js\<close>\<close>

record signup =
  su_id :: nat
  su_name :: string
  su_email :: string
  su_phone :: string
  su_date :: nat
  su_source :: string

definition su_transporter :: "env \<Rightarrow> string + gmail_transport" where
  "su_transporter env =
     Inr \<lparr>gt_service = ''gmail'', gt_user = env ''EMAIL_USER'', gt_pass = env ''EMAIL_PASS''\<rparr>"

text \<open>\<^verbatim>\<open>GET /\<close>\<close>

definition su_get_signups :: "signup list \<Rightarrow> signup listing" where
  "su_get_signups signups =
     \<lparr>list_status = 200, list_success = True, list_count = length signups,
      list_data = signups\<rparr>"


section \<open>The rate limiter in front of the sub-domain handler\<close>

record limiter_options =
  lim_windowMs :: nat
  lim_max :: nat
  lim_message :: string

definition contactLimiter :: limiter_options where
  "contactLimiter =
     \<lparr>lim_windowMs = 15 * 60 * 1000, lim_max = 5,
      lim_message = ''Too many contact attempts, please try again later''\<rparr>"

text \<open>For each client address, the times of the requests accepted from it, newest first.\<close>

type_synonym hits = "string \<Rightarrow> nat list"

text \<open>
  Modelled from the spec: the middleware that \<^verbatim>\<open>rateLimit(options)\<close> returns. It belongs to
  the \<^verbatim>\<open>express-rate-limit\<close> package, which is not among the sources. The spec: ``Sliding-window
  counter keyed by client network address: at most 5 accepted requests per 15-minute window;
  the 6th+ request within the window is rejected before validation runs, with a fixed message
  and no retry-after calculation.'' A request at \<open>now\<close> is accepted when fewer than
  \<^verbatim>\<open>max\<close> requests of its address were accepted less than \<^verbatim>\<open>windowMs\<close> before it.
\<close>

definition rateLimit :: "limiter_options \<Rightarrow> string \<Rightarrow> nat \<Rightarrow> hits \<Rightarrow> bool \<times> hits" where
  "rateLimit opts ip now hits =
     (if length (filter (\<lambda>t. now < t + lim_windowMs opts) (hits ip)) < lim_max opts
      then (True, hits(ip := now # hits ip))
      else (False, hits))"

text \<open>The answer of the route: the limiter's own (status 429 and the fixed message, as the
  spec has it), or the handler's.\<close>

datatype 'r reply = is_Limited: Limited nat string | is_Handled: Handled 'r

record sdc_state =
  st_hits :: hits
  st_submissions :: store

text \<open>One request as the process meets it: the body and address, the clock when the limiter
  sees it, the two clock readings of the handler, and what the transport does with a mail
  during this request.\<close>

record arrival =
  ar_req :: request
  ar_time :: nat
  ar_t_id :: nat
  ar_t_date :: nat
  ar_sendMail :: "mail \<Rightarrow> unit settled"

text \<open>\<^verbatim>\<open>SubDomainContactRouter.post('/submit', contactLimiter, contactValidationRules, handler)\<close>:
  the limiter is the first middleware.\<close>

definition sdc_post_submit ::
  "env \<Rightarrow> validator \<Rightarrow> (nat \<Rightarrow> string) \<Rightarrow> arrival \<Rightarrow> sdc_state \<Rightarrow>
   sdc_state \<times> sdc_response reply" where
  "sdc_post_submit env lib toLocaleString a st =
     (case rateLimit contactLimiter (req_ip (ar_req a)) (ar_time a) (st_hits st) of
        (accepted, hits') \<Rightarrow>
          if \<not> accepted
          then (st\<lparr>st_hits := hits'\<rparr>, Limited 429 (lim_message contactLimiter))
          else
            (case sdc_submit env lib toLocaleString (ar_sendMail a) (ar_t_id a) (ar_t_date a)
                    (ar_req a) (st_submissions st) of
               (submissions', res) \<Rightarrow>
                 (\<lparr>st_hits = hits', st_submissions = submissions'\<rparr>, Handled res)))"

text \<open>A run of the route over the requests in the order they arrive: the last state and the
  answers.\<close>

fun sdc_serve ::
  "env \<Rightarrow> validator \<Rightarrow> (nat \<Rightarrow> string) \<Rightarrow> arrival list \<Rightarrow> sdc_state \<Rightarrow>
   sdc_state \<times> sdc_response reply list" where
  "sdc_serve env lib toLocaleString [] st = (st, [])"
| "sdc_serve env lib toLocaleString (a # as) st =
     (case sdc_post_submit env lib toLocaleString a st of
        (st', r) \<Rightarrow>
          (case sdc_serve env lib toLocaleString as st' of
             (st'', rs) \<Rightarrow> (st'', r # rs)))"

text \<open>How many requests of the address \<open>ip\<close> that arrived in the 15 minutes from \<open>u\<close> on
  reached the handler.\<close>

definition accepted_in_window :: "string \<Rightarrow> nat \<Rightarrow> (arrival \<times> 'r reply) list \<Rightarrow> nat" where
  "accepted_in_window ip u served =
     length (filter (\<lambda>(a, r). req_ip (ar_req a) = ip \<and> u \<le> ar_time a \<and>
                               ar_time a < u + 15 * 60 * 1000 \<and> is_Handled r) served)"

text \<open>What the limiter keeps true of the log of an address: each time in it was accepted
  when fewer than \<open>m\<close> of the times logged before it were less than \<open>w\<close> old.\<close>

fun spaced :: "nat \<Rightarrow> nat \<Rightarrow> nat list \<Rightarrow> bool" where
  "spaced w m [] = True"
| "spaced w m (t # ts) = (length (filter (\<lambda>x. t < x + w) ts) < m \<and> spaced w m ts)"


section \<open>What it means for embedded text to be escaped\<close>

definition html_special :: "char \<Rightarrow> bool" where
  "html_special c = (c = CHR ''<'' \<or> c = CHR ''>'' \<or> c = CHR 0x22 \<or> c = CHR 0x27)"

text \<open>A text is escaped when it has no markup character and each of its ampersands starts
  one of the five entities that \<^verbatim>\<open>escapeHtml\<close> writes.\<close>

fun html_escaped :: "string \<Rightarrow> bool" where
  "html_escaped [] = True"
| "html_escaped (c # cs) =
     ((if c = CHR ''&''
       then list_ex (\<lambda>e. prefix e cs) [''amp;'', ''lt;'', ''gt;'', ''quot;'', ''#039;'']
       else \<not> html_special c) \<and> html_escaped cs)"

text \<open>Two records that differ in nothing but the text the submitter typed: same identifier,
  date and address, and a phone number present in both or in neither.\<close>

definition same_but_user_text :: "submission \<Rightarrow> submission \<Rightarrow> bool" where
  "same_but_user_text s t =
     (sub_id s = sub_id t \<and> sub_date s = sub_date t \<and> sub_ip s = sub_ip t \<and>
      truthy (sub_phone s) = truthy (sub_phone t))"


section \<open>The life of a status\<close>

text \<open>The moves of a status that the data model allows: from \<^verbatim>\<open>pending\<close> to \<^verbatim>\<open>completed\<close> or to
  \<^verbatim>\<open>failed\<close>, and no other.\<close>

fun forward :: "status \<Rightarrow> status \<Rightarrow> bool" where
  "forward pending completed = True"
| "forward pending failed = True"
| "forward a b = False"


section \<open>Sample inputs\<close>

definition has_at :: "string \<Rightarrow> bool" where
  "has_at s = (CHR ''@'' \<in> set s)"

text \<open>A validator library that leaves every value as it is and takes any text with an
  \<^verbatim>\<open>@\<close> for an address.\<close>

definition sample_lib :: validator where
  "sample_lib = \<lparr>v_trim = id, v_escape = id, v_normalizeEmail = id, v_isEmail = has_at\<rparr>"

definition sample_env :: env where
  "sample_env =
     map_of [(''EMAIL_USER'', ''mailer@example.com''), (''EMAIL_PASS'', ''secret''),
             (''ADMIN_EMAIL'', ''admin@example.com''), (''NODE_ENV'', ''production'')]"

definition sample_request :: request where
  "sample_request =
     \<lparr>body_name = Some ''Ada'', body_email = Some ''ada@example.com'', body_phone = None,
      body_category = None, body_age = None, body_message = None, req_ip = ''203.0.113.7''\<rparr>"

text \<open>The same post without a name.\<close>

definition nameless_request :: request where
  "nameless_request = sample_request\<lparr>body_name := None\<rparr>"

text \<open>Transports: one that delivers every mail, one that cannot reach its server, one whose
  login has no credentials, and one that delivers the high-priority admin mail and refuses
  the other.\<close>

definition transport_up :: "mail \<Rightarrow> unit settled" where
  "transport_up m = Inr ()"

definition transport_down :: "mail \<Rightarrow> unit settled" where
  "transport_down m = Inl ''connect ECONNREFUSED 127.0.0.1:587''"



text \<open>A \<^verbatim>\<open>parseInt\<close> that reads the one port number used here.\<close>

definition sample_parseInt :: "string option \<Rightarrow> int option" where
  "sample_parseInt v = (if v = Some ''587'' then Some 587 else None)"

definition empty_store :: store where
  "empty_store = Map.empty"

definition no_hits :: hits where
  "no_hits ip = []"

text \<open>The sample post arriving at time \<open>t\<close> while the transport is up; seven of them, one a
  minute for five minutes and a last one after a pause; and the state of the route when five
  posts of the sample address have been let through.\<close>

definition sample_arrival :: "nat \<Rightarrow> arrival" where
  "sample_arrival t =
     \<lparr>ar_req = sample_request, ar_time = t, ar_t_id = t, ar_t_date = t,
      ar_sendMail = transport_up\<rparr>"

definition sample_arrivals :: "arrival list" where
  "sample_arrivals = map sample_arrival [0, 60000, 120000, 180000, 240000, 300000, 1000000]"

definition busy_state :: sdc_state where
  "busy_state =
     \<lparr>st_hits = no_hits(''203.0.113.7'' := [240000, 180000, 120000, 60000, 0]),
      st_submissions = empty_store\<rparr>"


section \<open>Escaping of the submitter's text in the mails\<close>

lemma replaceAll_simps:
  "replaceAll c r [] = []"
  "replaceAll c r (x # xs) = (if x = c then r else [x]) @ replaceAll c r xs"
  by (simp_all add: replaceAll_def)

lemma escapeHtml_Nil: "escapeHtml [] = []"
  by (simp add: escapeHtml_def)

text \<open>The five passes of \<^verbatim>\<open>escapeHtml\<close> amount to one pass that rewrites each character on
  its own: the ampersands that the later passes write are never rewritten, since the ampersand
  pass is the first.\<close>

lemma escapeHtml_Cons:
  "escapeHtml (c # cs) =
     (if c = CHR ''&'' then ''&amp;'' else if c = CHR ''<'' then ''&lt;''
      else if c = CHR ''>'' then ''&gt;'' else if c = CHR 0x22 then ''&quot;''
      else if c = CHR 0x27 then ''&#039;'' else [c]) @ escapeHtml cs"
  by (cases cs) (simp_all add: escapeHtml_def replaceAll_simps)

lemma filter_special_escapeHtml: "filter html_special (escapeHtml u) = []"
  by (induction u) (simp_all add: escapeHtml_Nil escapeHtml_Cons html_special_def)

lemma html_escaped_escapeHtml: "html_escaped (escapeHtml u)"
  by (induction u) (simp_all add: escapeHtml_Nil escapeHtml_Cons html_special_def)

lemma filter_special_safePhone: "filter html_special (safePhone p) = []"
  by (auto simp: safePhone_def html_special_def is_digit_def filter_empty_conv)

text \<open>
  Claim C1, as amended. In the router of \<^verbatim>\<open>SubdomainContact.js\<close> the renderer itself escapes
  the name, the e-mail address and the phone number when it builds the two mails: the markup
  characters \<^verbatim>\<open><\<close>, \<^verbatim>\<open>>\<close>, \<^verbatim>\<open>"\<close> and \<^verbatim>\<open>'\<close> of the admin notification and of the user
  confirmation are the same, in the same order, for any two records that differ only in the
  text the submitter typed, so that text adds none; and in the text as embedded every
  ampersand starts an entity.
\<close>

theorem sdc_render_escapes_user_text:
  assumes "same_but_user_text s t"
  shows "filter html_special (sdc_generateAdminEmail toLocaleString s) =
         filter html_special (sdc_generateAdminEmail toLocaleString t) \<and>
         filter html_special (sdc_generateUserEmail env toLocaleString s) =
         filter html_special (sdc_generateUserEmail env toLocaleString t) \<and>
         html_escaped (escapeHtml (sub_name s)) \<and> html_escaped (escapeHtml (sub_email s)) \<and>
         html_escaped (escapeHtml (the_str (sub_phone s)))"
proof -
  from assms have same: "sub_id s = sub_id t" "sub_date s = sub_date t" "sub_ip s = sub_ip t"
    "truthy (sub_phone s) = truthy (sub_phone t)"
    by (simp_all add: same_but_user_text_def)
  have admin: "filter html_special (sdc_generateAdminEmail toLocaleString s) =
      filter html_special (sdc_generateAdminEmail toLocaleString t)"
    unfolding sdc_generateAdminEmail_def
    by (simp add: same filter_special_escapeHtml filter_special_safePhone)
  have user: "filter html_special (sdc_generateUserEmail env toLocaleString s) =
      filter html_special (sdc_generateUserEmail env toLocaleString t)"
    unfolding sdc_generateUserEmail_def
    by (simp add: same filter_special_escapeHtml)
  show ?thesis
    using admin user by (simp add: html_escaped_escapeHtml)
qed

text \<open>A record whose name is a script element and whose phone number is a tag, next to a
  harmless record with the same identifier, date and address.\<close>

theorem sdc_render_escapes_user_text_witness:
  "same_but_user_text
     \<lparr>sub_id = ''1000'', sub_name = ''<script>alert(1)</script>'', sub_email = ''a@b.c'',
      sub_phone = Some ''<b>'', sub_date = 1000, sub_status = pending, sub_ip = ''::1'',
      sub_error = None\<rparr>
     \<lparr>sub_id = ''1000'', sub_name = ''Ada'', sub_email = ''ada@example.com'',
      sub_phone = Some ''1'', sub_date = 1000, sub_status = pending, sub_ip = ''::1'',
      sub_error = None\<rparr> \<and>
   filter html_special (sdc_generateAdminEmail toString_nat
     \<lparr>sub_id = ''1000'', sub_name = ''<script>alert(1)</script>'', sub_email = ''a@b.c'',
      sub_phone = Some ''<b>'', sub_date = 1000, sub_status = pending, sub_ip = ''::1'',
      sub_error = None\<rparr>) =
   filter html_special (sdc_generateAdminEmail toString_nat
     \<lparr>sub_id = ''1000'', sub_name = ''Ada'', sub_email = ''ada@example.com'',
      sub_phone = Some ''1'', sub_date = 1000, sub_status = pending, sub_ip = ''::1'',
      sub_error = None\<rparr>) \<and>
   html_escaped (escapeHtml ''<script>alert(1)</script>'') \<and>
   escapeHtml ''<script>alert(1)</script>'' = ''&lt;script&gt;alert(1)&lt;/script&gt;''"
proof -
  let ?s = "\<lparr>sub_id = ''1000'', sub_name = ''<script>alert(1)</script>'', sub_email = ''a@b.c'',
      sub_phone = Some ''<b>'', sub_date = 1000, sub_status = pending, sub_ip = ''::1'',
      sub_error = None\<rparr>"
  let ?t = "\<lparr>sub_id = ''1000'', sub_name = ''Ada'', sub_email = ''ada@example.com'',
      sub_phone = Some ''1'', sub_date = 1000, sub_status = pending, sub_ip = ''::1'',
      sub_error = None\<rparr>"
  have h: "same_but_user_text ?s ?t"
    by (simp add: same_but_user_text_def)
  have e: "escapeHtml ''<script>alert(1)</script>'' = ''&lt;script&gt;alert(1)&lt;/script&gt;''"
    by (simp add: escapeHtml_def replaceAll_def)
  from sdc_render_escapes_user_text [OF h, of toString_nat sample_env] h e
  show ?thesis by simp
qed

lemma sublist_of_split: "ys = a @ xs @ b \<Longrightarrow> sublist xs ys"
  by auto

lemma p0_admin_embeds_name:
  "\<exists>rest. p0_generateAdminEmail toLocaleString fullYear submission =
     p0_generateAdminEmail_head @ p0_name submission @ rest"
  by (simp add: p0_generateAdminEmail_def)

lemma p0_user_embeds_name:
  "\<exists>rest. p0_generateUserEmail toLocaleString fullYear submission =
     p0_generateUserEmail_head @ p0_name submission @ rest"
  by (simp add: p0_generateUserEmail_def)

text \<open>
  Claim C1 as stated fails on the basic contact router: its renderer writes the fields of the
  record into the markup as they are and leaves the escaping to the validation chains. For a
  record whose name is a script element, both mails contain the element unescaped.
\<close>

theorem basic_contact_render_embeds_markup:
  "sublist ''<script>alert(1)</script>''
     (p0_generateAdminEmail toString_nat ''2025''
        \<lparr>p0_id = 1000, p0_name = ''<script>alert(1)</script>'', p0_email = ''a@b.c'',
         p0_phone = None, p0_category = ''general'', p0_age = Some ''30'',
         p0_message = ''hello'', p0_date = 1000\<rparr>) \<and>
   sublist ''<script>alert(1)</script>''
     (p0_generateUserEmail toString_nat ''2025''
        \<lparr>p0_id = 1000, p0_name = ''<script>alert(1)</script>'', p0_email = ''a@b.c'',
         p0_phone = None, p0_category = ''general'', p0_age = Some ''30'',
         p0_message = ''hello'', p0_date = 1000\<rparr>)"
proof -
  let ?r = "\<lparr>p0_id = 1000, p0_name = ''<script>alert(1)</script>'', p0_email = ''a@b.c'',
         p0_phone = None, p0_category = ''general'', p0_age = Some ''30'',
         p0_message = ''hello'', p0_date = 1000\<rparr>"
  obtain ra where a: "p0_generateAdminEmail toString_nat ''2025'' ?r =
      p0_generateAdminEmail_head @ p0_name ?r @ ra"
    using p0_admin_embeds_name by blast
  obtain ru where u: "p0_generateUserEmail toString_nat ''2025'' ?r =
      p0_generateUserEmail_head @ p0_name ?r @ ru"
    using p0_user_embeds_name by blast
  have "sublist (p0_name ?r) (p0_generateAdminEmail toString_nat ''2025'' ?r)"
    by (rule sublist_of_split [OF a])
  moreover have "sublist (p0_name ?r) (p0_generateUserEmail toString_nat ''2025'' ?r)"
    by (rule sublist_of_split [OF u])
  ultimately show ?thesis
    by simp
qed


section \<open>The listing endpoints\<close>

text \<open>
  Claim C10. Whatever the store holds, \<^verbatim>\<open>GET /submissions\<close> of the basic contact router and
  \<^verbatim>\<open>GET /\<close> of the signup router answer with status 200, \<^verbatim>\<open>success\<close> true, the store as
  \<^verbatim>\<open>data\<close> and the length of \<^verbatim>\<open>data\<close> as \<^verbatim>\<open>count\<close>.
\<close>

theorem listing_count_is_length:
  "list_status (p0_get_submissions submissions) = 200 \<and>
   list_success (p0_get_submissions submissions) \<and>
   list_count (p0_get_submissions submissions) =
     length (list_data (p0_get_submissions submissions)) \<and>
   list_data (p0_get_submissions submissions) = submissions \<and>
   list_status (su_get_signups signups) = 200 \<and>
   list_success (su_get_signups signups) \<and>
   list_count (su_get_signups signups) = length (list_data (su_get_signups signups)) \<and>
   list_data (su_get_signups signups) = signups"
  by (simp add: p0_get_submissions_def su_get_signups_def)


section \<open>Building the transport\<close>

text \<open>
  Claim C8, as amended. In the two sub-domain routers \<^verbatim>\<open>createTransporter\<close> throws the error
  ``Email credentials not configured'' exactly when \<^verbatim>\<open>EMAIL_USER\<close> or \<^verbatim>\<open>EMAIL_PASS\<close> is
  missing or empty, and builds a transport otherwise.
\<close>

theorem createTransporter_fails_without_credentials:
  "(sdc_createTransporter parseInt env = Inl ''Email credentials not configured'') =
     (\<not> truthy (env ''EMAIL_USER'') \<or> \<not> truthy (env ''EMAIL_PASS'')) \<and>
   (p2_createTransporter env = Inl ''Email credentials not configured'') =
     (\<not> truthy (env ''EMAIL_USER'') \<or> \<not> truthy (env ''EMAIL_PASS'')) \<and>
   isl (sdc_createTransporter parseInt env) =
     (\<not> truthy (env ''EMAIL_USER'') \<or> \<not> truthy (env ''EMAIL_PASS'')) \<and>
   isl (p2_createTransporter env) =
     (\<not> truthy (env ''EMAIL_USER'') \<or> \<not> truthy (env ''EMAIL_PASS''))"
  by (simp add: sdc_createTransporter_def p2_createTransporter_def Let_def)

text \<open>An environment without the password, one with an empty user name, and the sample
  environment, which has both.\<close>

theorem createTransporter_fails_without_credentials_witness:
  "sdc_createTransporter sample_parseInt (map_of [(''EMAIL_USER'', ''mailer@example.com'')]) =
     Inl ''Email credentials not configured'' \<and>
   p2_createTransporter (map_of [(''EMAIL_PASS'', ''secret''), (''EMAIL_USER'', [])]) =
     Inl ''Email credentials not configured'' \<and>
   isl (sdc_createTransporter sample_parseInt sample_env) = False \<and>
   isl (p2_createTransporter sample_env) = False"
  using createTransporter_fails_without_credentials
          [of sample_parseInt "map_of [(''EMAIL_USER'', ''mailer@example.com'')]"]
        createTransporter_fails_without_credentials
          [of sample_parseInt "map_of [(''EMAIL_PASS'', ''secret''), (''EMAIL_USER'', [])]"]
        createTransporter_fails_without_credentials [of sample_parseInt sample_env]
  by (simp add: sample_env_def)

text \<open>
  Claim C8 as stated fails on the signup router: its module hands the environment to the
  transport without a check, so with neither credential set a transport is built all the
  same.
\<close>

theorem signup_transport_built_without_credentials:
  "su_transporter (map_of [(''NODE_ENV'', ''production'')]) =
     Inr \<lparr>gt_service = ''gmail'', gt_user = None, gt_pass = None\<rparr>"
  by (simp add: su_transporter_def)


section \<open>The sweep of the TTL store\<close>

text \<open>
  Claim C6. The sweep is scheduled every hour, and a run at time \<open>now\<close> deletes exactly the
  records dated more than 24 hours before \<open>now\<close>: such a record is gone afterwards, and every
  other record, one made an hour ago among them, is still there as it was.
\<close>

theorem sweep_removes_exactly_the_expired:
  "SWEEP_INTERVAL = 60 * 60 * 1000 \<and>
   sdc_sweep now submissions k =
     (case submissions k of
        None \<Rightarrow> None
      | Some s \<Rightarrow> if sub_date s + 24 * 60 * 60 * 1000 < now then None else Some s)"
  by (auto simp: sdc_sweep_def SWEEP_INTERVAL_def SUBMISSION_TTL_def split: option.splits)

text \<open>A sweep at 200000000 ms over three records: one from 100 ms, one from exactly 24 hours
  before the sweep, one from an hour before it.\<close>

theorem sweep_removes_exactly_the_expired_witness:
  "sdc_sweep 200000000
     (map_of
       [(''100'', sdc_submission \<lparr>f_name = ''Ada'', f_email = ''a@b.c'', f_phone = None\<rparr> ''::1'' 100 100),
        (''113600000'', sdc_submission \<lparr>f_name = ''Bob'', f_email = ''b@b.c'', f_phone = None\<rparr> ''::1'' 113600000 113600000),
        (''196400000'', sdc_submission \<lparr>f_name = ''Cy'', f_email = ''c@b.c'', f_phone = None\<rparr> ''::1'' 196400000 196400000)])
     ''100'' = None \<and>
   sdc_sweep 200000000
     (map_of
       [(''100'', sdc_submission \<lparr>f_name = ''Ada'', f_email = ''a@b.c'', f_phone = None\<rparr> ''::1'' 100 100),
        (''113600000'', sdc_submission \<lparr>f_name = ''Bob'', f_email = ''b@b.c'', f_phone = None\<rparr> ''::1'' 113600000 113600000),
        (''196400000'', sdc_submission \<lparr>f_name = ''Cy'', f_email = ''c@b.c'', f_phone = None\<rparr> ''::1'' 196400000 196400000)])
     ''113600000'' =
     Some (sdc_submission \<lparr>f_name = ''Bob'', f_email = ''b@b.c'', f_phone = None\<rparr> ''::1'' 113600000 113600000) \<and>
   sdc_sweep 200000000
     (map_of
       [(''100'', sdc_submission \<lparr>f_name = ''Ada'', f_email = ''a@b.c'', f_phone = None\<rparr> ''::1'' 100 100),
        (''113600000'', sdc_submission \<lparr>f_name = ''Bob'', f_email = ''b@b.c'', f_phone = None\<rparr> ''::1'' 113600000 113600000),
        (''196400000'', sdc_submission \<lparr>f_name = ''Cy'', f_email = ''c@b.c'', f_phone = None\<rparr> ''::1'' 196400000 196400000)])
     ''196400000'' =
     Some (sdc_submission \<lparr>f_name = ''Cy'', f_email = ''c@b.c'', f_phone = None\<rparr> ''::1'' 196400000 196400000)"
proof -
  let ?m = "map_of
       [(''100'', sdc_submission \<lparr>f_name = ''Ada'', f_email = ''a@b.c'', f_phone = None\<rparr> ''::1'' 100 100),
        (''113600000'', sdc_submission \<lparr>f_name = ''Bob'', f_email = ''b@b.c'', f_phone = None\<rparr> ''::1'' 113600000 113600000),
        (''196400000'', sdc_submission \<lparr>f_name = ''Cy'', f_email = ''c@b.c'', f_phone = None\<rparr> ''::1'' 196400000 196400000)]"
  from sweep_removes_exactly_the_expired [of 200000000 ?m "''100''"]
       sweep_removes_exactly_the_expired [of 200000000 ?m "''113600000''"]
       sweep_removes_exactly_the_expired [of 200000000 ?m "''196400000''"]
  show ?thesis
    by (simp add: sdc_submission_def)
qed


section \<open>Rejected requests\<close>

lemma onlyFirstError_paths: "err_path ` set (onlyFirstError es) = err_path ` set es"
  by (induction es rule: onlyFirstError.induct) auto

lemma onlyFirstError_empty: "(onlyFirstError es = []) = (es = [])"
  by (cases es) simp_all

lemma onlyFirstError_distinct: "distinct (map err_path (onlyFirstError es))"
proof (induction es rule: onlyFirstError.induct)
  case 1
  show ?case by simp
next
  case (2 e es)
  have "err_path e \<notin> err_path ` set (filter (\<lambda>x. err_path x \<noteq> err_path e) es)"
    by auto
  then have "err_path e \<notin> err_path ` set (onlyFirstError (filter (\<lambda>x. err_path x \<noteq> err_path e) es))"
    by (simp add: onlyFirstError_paths)
  with 2 show ?case by simp
qed

lemma run_chain_paths: "e \<in> set (snd (run_chain path rules v)) \<Longrightarrow> err_path e = path"
  by (induction path rules v rule: run_chain.induct) (auto split: prod.splits if_splits)

lemma run_chain_paths':
  "run_chain path rules v = (v', es) \<Longrightarrow> e \<in> set es \<Longrightarrow> err_path e = path"
  using run_chain_paths [of e path rules v] by simp

lemma sdc_validation_paths:
  "err_path ` set (snd (sdc_contactValidationRules lib req)) \<subseteq> {''name'', ''email'', ''phone''}"
proof
  fix p assume "p \<in> err_path ` set (snd (sdc_contactValidationRules lib req))"
  then obtain e where e: "e \<in> set (snd (sdc_contactValidationRules lib req))" and p: "p = err_path e"
    by blast
  from e have "err_path e = ''name'' \<or> err_path e = ''email'' \<or> err_path e = ''phone''"
    unfolding sdc_contactValidationRules_def body_def body_optional_def
    by (auto simp del: run_chain.simps split: prod.splits option.splits dest: run_chain_paths')
  with p show "p \<in> {''name'', ''email'', ''phone''}" by simp
qed

lemma p0_validation_paths:
  "err_path ` set (snd (p0_contactValidationRules lib req)) \<subseteq>
     {''name'', ''email'', ''category'', ''message''}"
proof
  fix p assume "p \<in> err_path ` set (snd (p0_contactValidationRules lib req))"
  then obtain e where e: "e \<in> set (snd (p0_contactValidationRules lib req))" and p: "p = err_path e"
    by blast
  from e have "err_path e = ''name'' \<or> err_path e = ''email'' \<or> err_path e = ''category'' \<or>
      err_path e = ''message''"
    unfolding p0_contactValidationRules_def body_def
    by (auto simp del: run_chain.simps split: prod.splits dest: run_chain_paths')
  with p show "p \<in> {''name'', ''email'', ''category'', ''message''}" by simp
qed

text \<open>
  Claim C4. A request on which a validation rule fails is answered with status 400 and a
  list of errors that is not empty, and the store is the one the handler found. In the
  sub-domain router the list has one entry for each failing field, carrying that field's name;
  in the basic contact router it is the list of all the errors, each carrying the name of the
  field whose chain raised it.
\<close>

theorem invalid_request_is_rejected_and_not_stored:
  "(snd (sdc_contactValidationRules lib req) \<noteq> [] \<longrightarrow>
      (\<exists>es. sdc_submit env lib toLocaleString sendMail t_id t_date req submissions =
             (submissions,
              \<lparr>res_status = 400, res_success = False, res_message = Some ''Validation failed'',
               res_errors = Some es, res_data = None, res_error = None\<rparr>) \<and>
            es \<noteq> [] \<and> distinct (map field es) \<and>
            field ` set es = err_path ` set (snd (sdc_contactValidationRules lib req)) \<and>
            field ` set es \<subseteq> {''name'', ''email'', ''phone''})) \<and>
   (snd (p0_contactValidationRules lib req) \<noteq> [] \<longrightarrow>
      (\<exists>es. p0_submit env lib toLocaleString fullYear sendMail t_id t_date req submissions0 =
             (submissions0,
              \<lparr>res_status = 400, res_success = False, res_message = None,
               res_errors = Some es, res_data = None, res_error = None\<rparr>) \<and>
            es \<noteq> [] \<and> es = snd (p0_contactValidationRules lib req) \<and>
            err_path ` set es \<subseteq> {''name'', ''email'', ''category'', ''message''}))"
proof (intro conjI impI)
  assume bad: "snd (sdc_contactValidationRules lib req) \<noteq> []"
  obtain flds errors where v: "sdc_contactValidationRules lib req = (flds, errors)"
    by (cases "sdc_contactValidationRules lib req")
  with bad have ne: "errors \<noteq> []" by simp
  let ?es = "map (\<lambda>err. \<lparr>field = err_path err, message = err_msg err\<rparr>) (onlyFirstError errors)"
  have "map field ?es = map err_path (onlyFirstError errors)"
    by (simp add: comp_def)
  then have d: "distinct (map field ?es)"
    by (simp only: onlyFirstError_distinct)
  have "field ` set ?es = err_path ` set (onlyFirstError errors)"
    by (simp add: image_image)
  then have f: "field ` set ?es = err_path ` set errors"
    by (simp only: onlyFirstError_paths)
  have "err_path ` set errors \<subseteq> {''name'', ''email'', ''phone''}"
    using sdc_validation_paths [of lib req] v by simp
  with f have sub: "field ` set ?es \<subseteq> {''name'', ''email'', ''phone''}"
    by simp
  have "sdc_submit env lib toLocaleString sendMail t_id t_date req submissions =
      (submissions,
       \<lparr>res_status = 400, res_success = False, res_message = Some ''Validation failed'',
        res_errors = Some ?es, res_data = None, res_error = None\<rparr>)"
    using ne by (simp add: sdc_submit_def sdc_begin_def v)
  moreover have "?es \<noteq> []"
    using ne by (simp add: onlyFirstError_empty)
  ultimately show "\<exists>es. sdc_submit env lib toLocaleString sendMail t_id t_date req submissions =
             (submissions,
              \<lparr>res_status = 400, res_success = False, res_message = Some ''Validation failed'',
               res_errors = Some es, res_data = None, res_error = None\<rparr>) \<and>
            es \<noteq> [] \<and> distinct (map field es) \<and>
            field ` set es = err_path ` set (snd (sdc_contactValidationRules lib req)) \<and>
            field ` set es \<subseteq> {''name'', ''email'', ''phone''}"
    using d f sub v by (intro exI [of _ ?es]) simp
next
  assume bad: "snd (p0_contactValidationRules lib req) \<noteq> []"
  obtain flds errors where v: "p0_contactValidationRules lib req = (flds, errors)"
    by (cases "p0_contactValidationRules lib req")
  with bad have ne: "errors \<noteq> []" by simp
  have "p0_submit env lib toLocaleString fullYear sendMail t_id t_date req submissions0 =
      (submissions0,
       \<lparr>res_status = 400, res_success = False, res_message = None,
        res_errors = Some errors, res_data = None, res_error = None\<rparr>)"
    using ne by (simp add: p0_submit_def v)
  moreover have "err_path ` set errors \<subseteq> {''name'', ''email'', ''category'', ''message''}"
    using p0_validation_paths [of lib req] v by simp
  ultimately show "\<exists>es. p0_submit env lib toLocaleString fullYear sendMail t_id t_date req submissions0 =
             (submissions0,
              \<lparr>res_status = 400, res_success = False, res_message = None,
               res_errors = Some es, res_data = None, res_error = None\<rparr>) \<and>
            es \<noteq> [] \<and> es = snd (p0_contactValidationRules lib req) \<and>
            err_path ` set es \<subseteq> {''name'', ''email'', ''category'', ''message''}"
    using ne v by simp
qed

text \<open>A phone number written with a no-break space passes the phone rule of
  \<^verbatim>\<open>SubdomainContact.js\<close>, as it matches \<^verbatim>\<open>\s\<close>: the sample post with such a number raises no
  error there, while the earlier router, whose pattern lists the plain space only, refuses
  it.\<close>

lemma phone_with_no_break_space:
  "sdc_phone_chars [CHR ''1'', CHR 0xA0, CHR ''2''] \<and>
   \<not> p2_phone_chars [CHR ''1'', CHR 0xA0, CHR ''2'']"
  by (simp add: sdc_phone_chars_def p2_phone_chars_def is_space_def is_digit_def)

lemma sample_with_no_break_space:
  "snd (sdc_contactValidationRules sample_lib
          (sample_request\<lparr>body_phone := Some [CHR ''1'', CHR 0xA0, CHR ''2'']\<rparr>)) = []"
proof -
  have "sdc_phone_chars [CHR ''1'', CHR 0xA0, CHR ''2'']"
    using phone_with_no_break_space by (rule conjunct1)
  then show ?thesis
    by (simp add: sdc_contactValidationRules_def body_def body_optional_def sample_lib_def
        sample_request_def notEmpty_def isLength_max_def has_at_def)
qed

text \<open>The sample post without its name, sent to both routers.\<close>

lemma sample_nameless_sdc:
  "sdc_contactValidationRules sample_lib nameless_request =
     (\<lparr>f_name = [], f_email = ''ada@example.com'', f_phone = None\<rparr>,
      [\<lparr>err_path = ''name'', err_msg = ''Name is required''\<rparr>])"
  by (simp add: sdc_contactValidationRules_def body_def body_optional_def sample_lib_def
      nameless_request_def sample_request_def notEmpty_def isLength_max_def has_at_def)

lemma sample_nameless_p0:
  "p0_contactValidationRules sample_lib nameless_request =
     (\<lparr>pf_name = [], pf_email = ''ada@example.com'', pf_category = [], pf_message = []\<rparr>,
      [\<lparr>err_path = ''name'', err_msg = ''Name is required''\<rparr>,
       \<lparr>err_path = ''category'', err_msg = ''Category is required''\<rparr>,
       \<lparr>err_path = ''message'', err_msg = ''Message is required''\<rparr>])"
  by (simp add: p0_contactValidationRules_def body_def sample_lib_def
      nameless_request_def sample_request_def notEmpty_def has_at_def)

theorem invalid_request_is_rejected_and_not_stored_witness:
  "snd (sdc_contactValidationRules sample_lib nameless_request) \<noteq> [] \<and>
   sdc_submit sample_env sample_lib toString_nat transport_up 1000 1001 nameless_request empty_store =
     (empty_store,
      \<lparr>res_status = 400, res_success = False, res_message = Some ''Validation failed'',
       res_errors = Some [\<lparr>field = ''name'', message = ''Name is required''\<rparr>],
       res_data = None, res_error = None\<rparr>) \<and>
   snd (p0_contactValidationRules sample_lib nameless_request) \<noteq> [] \<and>
   p0_submit sample_env sample_lib toString_nat ''2025'' transport_up 1000 1001 nameless_request [] =
     ([],
      \<lparr>res_status = 400, res_success = False, res_message = None,
       res_errors = Some [\<lparr>err_path = ''name'', err_msg = ''Name is required''\<rparr>,
                          \<lparr>err_path = ''category'', err_msg = ''Category is required''\<rparr>,
                          \<lparr>err_path = ''message'', err_msg = ''Message is required''\<rparr>],
       res_data = None, res_error = None\<rparr>)"
proof -
  have a: "snd (sdc_contactValidationRules sample_lib nameless_request) \<noteq> []"
    by (simp add: sample_nameless_sdc)
  have b: "snd (p0_contactValidationRules sample_lib nameless_request) \<noteq> []"
    by (simp add: sample_nameless_p0)
  from invalid_request_is_rejected_and_not_stored
         [of sample_lib nameless_request sample_env toString_nat transport_up 1000 1001
             empty_store "''2025''" "[]"] a b
  obtain es where
    "sdc_submit sample_env sample_lib toString_nat transport_up 1000 1001 nameless_request empty_store =
       (empty_store,
        \<lparr>res_status = 400, res_success = False, res_message = Some ''Validation failed'',
         res_errors = Some es, res_data = None, res_error = None\<rparr>)"
    and "p0_submit sample_env sample_lib toString_nat ''2025'' transport_up 1000 1001 nameless_request [] =
     ([],
      \<lparr>res_status = 400, res_success = False, res_message = None,
       res_errors = Some (snd (p0_contactValidationRules sample_lib nameless_request)),
       res_data = None, res_error = None\<rparr>)"
    by auto
  moreover have "es = [\<lparr>field = ''name'', message = ''Name is required''\<rparr>]"
    using calculation(1) by (simp add: sdc_submit_def sdc_begin_def sample_nameless_sdc)
  ultimately show ?thesis
    using a b by (simp add: sample_nameless_p0)
qed


section \<open>A submission whose mails cannot be sent\<close>

lemma sdc_begin_Inr:
  assumes "sdc_begin lib t_id t_date req submissions = Inr (submission, submissions1)"
  shows "submissions1 = submissions(sub_id submission \<mapsto> submission)"
    and "sub_status submission = pending"
    and "sub_error submission = None"
    and "snd (sdc_contactValidationRules lib req) = []"
  using assms
  by (auto simp: sdc_begin_def sdc_submission_def Let_def split: prod.splits if_splits)

lemma p2_begin_Inr:
  assumes "p2_begin lib t_id t_date req submissions = Inr (submission, i, submissions1)"
  shows "submissions1 = submissions @ [submission]"
    and "i = length submissions"
    and "p2_status submission = pending"
    and "snd (p2_contactValidationRules lib req) = []"
  using assms
  by (auto simp: p2_begin_def p2_new_submission_def Let_def split: prod.splits if_splits)

lemma sdc_dispatch_admin:
  "sdc_dispatch sendMail mailOptions =
     (case sendMail (fst mailOptions) of Inl e \<Rightarrow> Inl e | Inr u \<Rightarrow> Inr ((), ()))"
  by (simp add: sdc_dispatch_def promise_all2_def catch_log_def split: sum.splits)

lemma p2_dispatch_fails:
  assumes "isl (sendMail (fst mailOptions)) \<or> isl (sendMail (snd mailOptions))"
  shows "isl (p2_dispatch env sendMail user_first mailOptions)"
  using assms
  by (auto simp: p2_dispatch_def promise_all2_def split: sum.splits)

lemma sdc_finish_failed:
  "\<exists>res. sdc_finish env (Inl err) submission submissions =
      (submissions(sub_id submission \<mapsto> submission\<lparr>sub_status := failed, sub_error := Some err\<rparr>), res) \<and>
     (res_status res = 500 \<or> res_status res = 503) \<and> \<not> res_success res"
  by (simp add: sdc_finish_def Let_def)

lemma p2_finish_failed:
  "\<exists>res. p2_finish env (Inl err) submission i submissions =
      (submissions[i := submission\<lparr>p2_status := failed\<rparr>], res) \<and>
     res_status res = 500 \<and> \<not> res_success res"
  by (simp add: p2_finish_def Let_def)

text \<open>
  Claim C2. When a request has passed validation and its dispatch fails, the record is in the
  store afterwards with status \<^verbatim>\<open>failed\<close>, and the handler answers with status 500 or 503.
  In the router of \<^verbatim>\<open>SubdomainContact.js\<close> the dispatch fails when the admin mail is rejected
  (an unreachable transport rejects both mails); in the earlier router it fails when either
  mail is rejected. The handler is a total function of its inputs: a rejected send is a value
  that the \<^verbatim>\<open>catch\<close> block receives.
\<close>

theorem failed_dispatch_is_recorded:
  "(sdc_begin lib t_id t_date req submissions = Inr (submission, submissions1) \<longrightarrow>
    sendMail (fst (sdc_mailOptions env toLocaleString submission)) = Inl err \<longrightarrow>
      (\<exists>res. sdc_submit env lib toLocaleString sendMail t_id t_date req submissions =
               (submissions(sub_id submission \<mapsto>
                  submission\<lparr>sub_status := failed, sub_error := Some err\<rparr>), res) \<and>
             (res_status res = 500 \<or> res_status res = 503) \<and> \<not> res_success res)) \<and>
   (p2_begin lib t_id t_date req submissions2 = Inr (submission2, i, submissions2') \<longrightarrow>
    isl (sendMail (fst (p2_mailOptions env toLocaleString submission2))) \<or>
    isl (sendMail (snd (p2_mailOptions env toLocaleString submission2))) \<longrightarrow>
      (\<exists>res. p2_submit env lib toLocaleString sendMail user_first t_id t_date req submissions2 =
               (submissions2 @ [submission2\<lparr>p2_status := failed\<rparr>], res) \<and>
             res_status res = 500 \<and> \<not> res_success res))"
proof (intro conjI impI)
  assume b: "sdc_begin lib t_id t_date req submissions = Inr (submission, submissions1)"
    and f: "sendMail (fst (sdc_mailOptions env toLocaleString submission)) = Inl err"
  have s1: "submissions1 = submissions(sub_id submission \<mapsto> submission)"
    by (rule sdc_begin_Inr(1) [OF b])
  have "sdc_submit env lib toLocaleString sendMail t_id t_date req submissions =
      sdc_finish env (Inl err) submission submissions1"
    by (simp add: sdc_submit_def b sdc_dispatch_admin f)
  with sdc_finish_failed [of env err submission submissions1] s1
  show "\<exists>res. sdc_submit env lib toLocaleString sendMail t_id t_date req submissions =
               (submissions(sub_id submission \<mapsto>
                  submission\<lparr>sub_status := failed, sub_error := Some err\<rparr>), res) \<and>
             (res_status res = 500 \<or> res_status res = 503) \<and> \<not> res_success res"
    by simp
next
  assume b: "p2_begin lib t_id t_date req submissions2 = Inr (submission2, i, submissions2')"
    and f: "isl (sendMail (fst (p2_mailOptions env toLocaleString submission2))) \<or>
            isl (sendMail (snd (p2_mailOptions env toLocaleString submission2)))"
  from p2_dispatch_fails [OF f] obtain err where
    d: "p2_dispatch env sendMail user_first (p2_mailOptions env toLocaleString submission2) = Inl err"
    by (auto simp: isl_def)
  have s1: "submissions2' = submissions2 @ [submission2]" and i: "i = length submissions2"
    by (rule p2_begin_Inr [OF b])+
  have "p2_submit env lib toLocaleString sendMail user_first t_id t_date req submissions2 =
      p2_finish env (Inl err) submission2 i submissions2'"
    by (simp add: p2_submit_def b d)
  with p2_finish_failed [of env err submission2 i submissions2'] s1 i
  show "\<exists>res. p2_submit env lib toLocaleString sendMail user_first t_id t_date req submissions2 =
               (submissions2 @ [submission2\<lparr>p2_status := failed\<rparr>], res) \<and>
             res_status res = 500 \<and> \<not> res_success res"
    by simp
qed

text \<open>The sample post passes the rules of both sub-domain routers.\<close>

lemma sample_sdc_valid:
  "sdc_contactValidationRules sample_lib sample_request =
     (\<lparr>f_name = ''Ada'', f_email = ''ada@example.com'', f_phone = None\<rparr>, [])"
  by (simp add: sdc_contactValidationRules_def body_def body_optional_def sample_lib_def
      sample_request_def notEmpty_def isLength_max_def has_at_def)

lemma sample_p2_valid:
  "p2_contactValidationRules sample_lib sample_request =
     (\<lparr>f_name = ''Ada'', f_email = ''ada@example.com'', f_phone = None\<rparr>, [])"
  by (simp add: p2_contactValidationRules_def body_def body_optional_def sample_lib_def
      sample_request_def notEmpty_def isLength_max_def has_at_def)

lemma sample_ip: "req_ip sample_request = ''203.0.113.7''"
  by (simp add: sample_request_def)

lemma sample_sdc_begin:
  "sdc_begin sample_lib 1000 1001 sample_request empty_store =
     Inr (sdc_submission \<lparr>f_name = ''Ada'', f_email = ''ada@example.com'', f_phone = None\<rparr>
            ''203.0.113.7'' 1000 1001,
          empty_store(toString_nat 1000 \<mapsto>
            sdc_submission \<lparr>f_name = ''Ada'', f_email = ''ada@example.com'', f_phone = None\<rparr>
              ''203.0.113.7'' 1000 1001))"
  by (simp add: sdc_begin_def sample_sdc_valid Let_def sdc_submission_def sample_ip)

lemma sample_p2_begin:
  "p2_begin sample_lib 1000 1001 sample_request [] =
     Inr (p2_new_submission \<lparr>f_name = ''Ada'', f_email = ''ada@example.com'', f_phone = None\<rparr>
            1000 1001, 0,
          [p2_new_submission \<lparr>f_name = ''Ada'', f_email = ''ada@example.com'', f_phone = None\<rparr>
             1000 1001])"
  by (simp add: p2_begin_def sample_p2_valid Let_def)

text \<open>The sample post, sent while the mail server refuses connections.\<close>

theorem failed_dispatch_is_recorded_witness:
  "sdc_begin sample_lib 1000 1001 sample_request empty_store =
     Inr (sdc_submission \<lparr>f_name = ''Ada'', f_email = ''ada@example.com'', f_phone = None\<rparr>
            ''203.0.113.7'' 1000 1001,
          empty_store(toString_nat 1000 \<mapsto>
            sdc_submission \<lparr>f_name = ''Ada'', f_email = ''ada@example.com'', f_phone = None\<rparr>
              ''203.0.113.7'' 1000 1001)) \<and>
   fst (sdc_submit sample_env sample_lib toString_nat transport_down 1000 1001 sample_request
          empty_store) (toString_nat 1000) =
     Some \<lparr>sub_id = toString_nat 1000, sub_name = ''Ada'', sub_email = ''ada@example.com'',
           sub_phone = None, sub_date = 1001, sub_status = failed, sub_ip = ''203.0.113.7'',
           sub_error = Some ''connect ECONNREFUSED 127.0.0.1:587''\<rparr> \<and>
   res_status (snd (sdc_submit sample_env sample_lib toString_nat transport_down 1000 1001
                      sample_request empty_store)) = 500 \<and>
   fst (p2_submit sample_env sample_lib toString_nat transport_down False 1000 1001
          sample_request []) =
     [\<lparr>p2_id = toString_nat 1000, p2_name = ''Ada'', p2_email = ''ada@example.com'',
       p2_phone = None, p2_date = 1001, p2_status = failed\<rparr>] \<and>
   res_status (snd (p2_submit sample_env sample_lib toString_nat transport_down False 1000 1001
                      sample_request [])) = 500"
proof -
  let ?f = "\<lparr>f_name = ''Ada'', f_email = ''ada@example.com'', f_phone = None\<rparr>"
  let ?s = "sdc_submission ?f ''203.0.113.7'' 1000 1001"
  let ?s2 = "p2_new_submission ?f 1000 1001"
  have down: "transport_down (fst (sdc_mailOptions sample_env toString_nat ?s)) =
      Inl ''connect ECONNREFUSED 127.0.0.1:587''"
    by (simp add: transport_down_def)
  have down2: "isl (transport_down (fst (p2_mailOptions sample_env toString_nat ?s2))) \<or>
      isl (transport_down (snd (p2_mailOptions sample_env toString_nat ?s2)))"
    by (simp add: transport_down_def)
  from failed_dispatch_is_recorded
         [of sample_lib 1000 1001 sample_request empty_store ?s
             "empty_store(toString_nat 1000 \<mapsto> ?s)" transport_down sample_env toString_nat
             "''connect ECONNREFUSED 127.0.0.1:587''" "[]" ?s2 0 "[?s2]" False]
       sample_sdc_begin sample_p2_begin down down2
  obtain res res2 where
    r: "sdc_submit sample_env sample_lib toString_nat transport_down 1000 1001 sample_request
          empty_store =
        (empty_store(sub_id ?s \<mapsto>
            ?s\<lparr>sub_status := failed, sub_error := Some ''connect ECONNREFUSED 127.0.0.1:587''\<rparr>), res)"
      "res_status res = 500 \<or> res_status res = 503"
    and r2: "p2_submit sample_env sample_lib toString_nat transport_down False 1000 1001
          sample_request [] = ([] @ [?s2\<lparr>p2_status := failed\<rparr>], res2)"
      "res_status res2 = 500"
    by blast
  have "res_status (snd (sdc_submit sample_env sample_lib toString_nat transport_down 1000 1001
                      sample_request empty_store)) = 500"
    by (simp add: sdc_submit_def sample_sdc_begin sdc_dispatch_admin transport_down_def
        sdc_finish_def Let_def)
  with r r2 sample_sdc_begin show ?thesis
    by (simp add: sdc_submission_def p2_new_submission_def or_null_def)
qed


section \<open>The status of a record\<close>

lemma sdc_finish_store:
  "\<exists>s'. fst (sdc_finish env sent submission submissions) = submissions(sub_id submission \<mapsto> s') \<and>
        (sub_status s' = completed \<or> sub_status s' = failed) \<and>
        s'\<lparr>sub_status := sub_status submission, sub_error := sub_error submission\<rparr> = submission"
proof (cases sent)
  case (Inl e)
  then show ?thesis
    by (intro exI [of _ "submission\<lparr>sub_status := failed, sub_error := Some e\<rparr>"])
       (simp add: sdc_finish_def Let_def)
next
  case (Inr u)
  then show ?thesis
    by (intro exI [of _ "submission\<lparr>sub_status := completed\<rparr>"])
       (simp add: sdc_finish_def Let_def)
qed

lemma p2_finish_store:
  "\<exists>s'. fst (p2_finish env sent submission i submissions) = submissions[i := s'] \<and>
        (p2_status s' = completed \<or> p2_status s' = failed) \<and>
        s'\<lparr>p2_status := p2_status submission\<rparr> = submission"
proof (cases sent)
  case (Inl e)
  then show ?thesis
    by (intro exI [of _ "submission\<lparr>p2_status := failed\<rparr>"])
       (simp add: p2_finish_def Let_def)
next
  case (Inr u)
  then show ?thesis
    by (intro exI [of _ "submission\<lparr>p2_status := completed\<rparr>"])
       (simp add: p2_finish_def Let_def)
qed

lemma forward_pending: "forward pending b = (b = completed \<or> b = failed)"
  by (cases b) simp_all

text \<open>
  Claim C3. The record that the handler inserts has status \<^verbatim>\<open>pending\<close>. The one later write
  to it, made when the sends have settled, puts the same record back with status
  \<^verbatim>\<open>completed\<close> or \<^verbatim>\<open>failed\<close>, a forward move, whatever the store has become in the meantime;
  and the sweep never changes a record that it keeps. This is so in the router of
  \<^verbatim>\<open>SubdomainContact.js\<close> and in the earlier one, where the record is the element of the array
  at the index it was pushed to. (Two posts in the same millisecond get the same identifier
  in the map of \<^verbatim>\<open>SubdomainContact.js\<close>; the second then takes the place of the first. The
  statement follows each record, not each key.)
\<close>

theorem status_moves_forward_only:
  "(sdc_begin lib t_id t_date req submissions = Inr (submission, inserted) \<longrightarrow>
      sub_status submission = pending \<and>
      inserted = submissions(sub_id submission \<mapsto> submission) \<and>
      (\<exists>s'. fst (sdc_finish env sent submission later) = later(sub_id submission \<mapsto> s') \<and>
            forward (sub_status submission) (sub_status s') \<and>
            s'\<lparr>sub_status := pending, sub_error := None\<rparr> = submission)) \<and>
   (sdc_sweep now submissions k = None \<or> sdc_sweep now submissions k = submissions k) \<and>
   (p2_begin lib t_id t_date req entries = Inr (entry, i, pushed) \<longrightarrow>
      p2_status entry = pending \<and>
      pushed = entries @ [entry] \<and> i = length entries \<and>
      (\<exists>s'. fst (p2_finish env sent entry i later_entries) = later_entries[i := s'] \<and>
            forward (p2_status entry) (p2_status s') \<and>
            s'\<lparr>p2_status := pending\<rparr> = entry))"
proof (intro conjI impI)
  assume b: "sdc_begin lib t_id t_date req submissions = Inr (submission, inserted)"
  show p: "sub_status submission = pending"
    by (rule sdc_begin_Inr(2) [OF b])
  show "inserted = submissions(sub_id submission \<mapsto> submission)"
    by (rule sdc_begin_Inr(1) [OF b])
  have e: "sub_error submission = None"
    by (rule sdc_begin_Inr(3) [OF b])
  from sdc_finish_store [of env sent submission later] p e
  show "\<exists>s'. fst (sdc_finish env sent submission later) = later(sub_id submission \<mapsto> s') \<and>
            forward (sub_status submission) (sub_status s') \<and>
            s'\<lparr>sub_status := pending, sub_error := None\<rparr> = submission"
    by (auto simp: forward_pending)
next
  show "sdc_sweep now submissions k = None \<or> sdc_sweep now submissions k = submissions k"
    by (simp add: sdc_sweep_def split: option.splits)
next
  assume b: "p2_begin lib t_id t_date req entries = Inr (entry, i, pushed)"
  show p: "p2_status entry = pending"
    by (rule p2_begin_Inr(3) [OF b])
  show "pushed = entries @ [entry]"
    by (rule p2_begin_Inr(1) [OF b])
  show "i = length entries"
    by (rule p2_begin_Inr(2) [OF b])
  from p2_finish_store [of env sent entry i later_entries] p
  show "\<exists>s'. fst (p2_finish env sent entry i later_entries) = later_entries[i := s'] \<and>
            forward (p2_status entry) (p2_status s') \<and>
            s'\<lparr>p2_status := pending\<rparr> = entry"
    by (auto simp: forward_pending)
qed


text \<open>The sample post in both routers: inserted as pending, then failed in one and completed in
  the other.\<close>

theorem status_moves_forward_only_witness:
  "sdc_begin sample_lib 1000 1001 sample_request empty_store =
     Inr (sdc_submission \<lparr>f_name = ''Ada'', f_email = ''ada@example.com'', f_phone = None\<rparr>
            ''203.0.113.7'' 1000 1001,
          empty_store(toString_nat 1000 \<mapsto>
            sdc_submission \<lparr>f_name = ''Ada'', f_email = ''ada@example.com'', f_phone = None\<rparr>
              ''203.0.113.7'' 1000 1001)) \<and>
   sub_status (sdc_submission \<lparr>f_name = ''Ada'', f_email = ''ada@example.com'', f_phone = None\<rparr>
                 ''203.0.113.7'' 1000 1001) = pending \<and>
   map_option sub_status
     (fst (sdc_finish sample_env (Inl ''connect ECONNREFUSED 127.0.0.1:587'')
            (sdc_submission \<lparr>f_name = ''Ada'', f_email = ''ada@example.com'', f_phone = None\<rparr>
               ''203.0.113.7'' 1000 1001)
            empty_store) (toString_nat 1000)) = Some failed \<and>
   p2_begin sample_lib 1000 1001 sample_request [] =
     Inr (p2_new_submission \<lparr>f_name = ''Ada'', f_email = ''ada@example.com'', f_phone = None\<rparr>
            1000 1001, 0,
          [p2_new_submission \<lparr>f_name = ''Ada'', f_email = ''ada@example.com'', f_phone = None\<rparr>
             1000 1001]) \<and>
   map p2_status
     (fst (p2_finish sample_env (Inr ((), ()))
            (p2_new_submission \<lparr>f_name = ''Ada'', f_email = ''ada@example.com'', f_phone = None\<rparr>
               1000 1001) 0
            [p2_new_submission \<lparr>f_name = ''Ada'', f_email = ''ada@example.com'', f_phone = None\<rparr>
               1000 1001])) = [completed]"
proof -
  let ?f = "\<lparr>f_name = ''Ada'', f_email = ''ada@example.com'', f_phone = None\<rparr>"
  let ?s = "sdc_submission ?f ''203.0.113.7'' 1000 1001"
  let ?s2 = "p2_new_submission ?f 1000 1001"
  note sdc = status_moves_forward_only
         [where lib = sample_lib and t_id = 1000 and t_date = 1001 and req = sample_request
            and submissions = empty_store and submission = "?s"
            and inserted = "empty_store(toString_nat 1000 \<mapsto> ?s)" and env = sample_env
            and sent = "Inl ''connect ECONNREFUSED 127.0.0.1:587''" and later = empty_store,
          THEN conjunct1, THEN mp, OF sample_sdc_begin]
  from sdc have p: "sub_status ?s = pending"
    by (rule conjunct1)
  from sdc obtain s' where
    s': "fst (sdc_finish sample_env (Inl ''connect ECONNREFUSED 127.0.0.1:587'') ?s empty_store) =
      empty_store(sub_id ?s \<mapsto> s')" "forward (sub_status ?s) (sub_status s')"
    by (elim conjE exE)
  have id: "sub_id ?s = toString_nat 1000"
    by (simp add: sdc_submission_def)
  have "fst (sdc_finish sample_env (Inl ''connect ECONNREFUSED 127.0.0.1:587'') ?s empty_store) =
      empty_store(sub_id ?s \<mapsto>
        ?s\<lparr>sub_status := failed, sub_error := Some ''connect ECONNREFUSED 127.0.0.1:587''\<rparr>)"
    by (simp add: sdc_finish_def Let_def)
  with s'(1) have "s' = ?s\<lparr>sub_status := failed,
      sub_error := Some ''connect ECONNREFUSED 127.0.0.1:587''\<rparr>"
    by (metis map_upd_eqD1)
  then have a: "map_option sub_status
     (fst (sdc_finish sample_env (Inl ''connect ECONNREFUSED 127.0.0.1:587'') ?s empty_store)
        (toString_nat 1000)) = Some failed"
    by (simp add: s'(1) id)
  note p2 = status_moves_forward_only
         [where lib = sample_lib and t_id = 1000 and t_date = 1001 and req = sample_request
            and entries = "[]" and entry = "?s2" and i = 0
            and pushed = "[?s2]" and env = sample_env
            and sent = "Inr ((), ())" and later_entries = "[?s2]",
          THEN conjunct2, THEN conjunct2, THEN mp, OF sample_p2_begin]
  from p2 obtain s2' where
    s2': "fst (p2_finish sample_env (Inr ((), ())) ?s2 0 [?s2]) = [?s2][0 := s2']"
      "forward (p2_status ?s2) (p2_status s2')"
    by (elim conjE exE)
  have "fst (p2_finish sample_env (Inr ((), ())) ?s2 0 [?s2]) = [?s2\<lparr>p2_status := completed\<rparr>]"
    by (simp add: p2_finish_def)
  with s2'(1) have "s2' = ?s2\<lparr>p2_status := completed\<rparr>"
    by simp
  then have b: "map p2_status (fst (p2_finish sample_env (Inr ((), ())) ?s2 0 [?s2])) = [completed]"
    by (simp add: s2'(1))
  from p a b sample_sdc_begin sample_p2_begin show ?thesis
    by simp
qed



section \<open>Which mail may fail\<close>









section \<open>The status code of a failed dispatch\<close>



section \<open>The rate limit\<close>

lemma length_filter_mono:
  "(\<And>x. x \<in> set xs \<Longrightarrow> P x \<Longrightarrow> Q x) \<Longrightarrow> length (filter P xs) \<le> length (filter Q xs)"
proof (induction xs)
  case Nil
  show ?case by simp
next
  case (Cons x xs)
  then have "length (filter P xs) \<le> length (filter Q xs)"
    by simp
  with Cons.prems [of x] show ?case
    by auto
qed

lemma spaced_window:
  "spaced w m ts \<Longrightarrow> length (filter (\<lambda>x. u \<le> x \<and> x < u + w) ts) \<le> m"
proof (induction ts)
  case Nil
  show ?case by simp
next
  case (Cons t ts)
  show ?case
  proof (cases "u \<le> t \<and> t < u + w")
    case True
    have "length (filter (\<lambda>x. u \<le> x \<and> x < u + w) ts) \<le> length (filter (\<lambda>x. t < x + w) ts)"
      using True by (intro length_filter_mono) linarith
    also have "\<dots> < m"
      using Cons.prems by simp
    finally show ?thesis
      using True by simp
  next
    case False
    with Cons show ?thesis by auto
  qed
qed

lemma rateLimit_accepts:
  "fst (rateLimit opts ip now hits) =
     (length (filter (\<lambda>t. now < t + lim_windowMs opts) (hits ip)) < lim_max opts)"
  by (simp add: rateLimit_def)

lemma rateLimit_hits:
  "snd (rateLimit opts ip now hits) =
     (if fst (rateLimit opts ip now hits) then hits(ip := now # hits ip) else hits)"
  by (simp add: rateLimit_def)

lemma rateLimit_spaced:
  assumes "\<And>a. spaced (lim_windowMs opts) (lim_max opts) (hits a)"
  shows "spaced (lim_windowMs opts) (lim_max opts) (snd (rateLimit opts ip now hits) a)"
  using assms by (simp add: rateLimit_def)

lemma post_submit_reply:
  "is_Handled (snd (sdc_post_submit env lib toLocaleString a st)) =
     fst (rateLimit contactLimiter (req_ip (ar_req a)) (ar_time a) (st_hits st))"
  by (simp add: sdc_post_submit_def split: prod.splits)

lemma post_submit_hits:
  "st_hits (fst (sdc_post_submit env lib toLocaleString a st)) =
     snd (rateLimit contactLimiter (req_ip (ar_req a)) (ar_time a) (st_hits st))"
  by (simp add: sdc_post_submit_def split: prod.splits)

lemma serve_Cons:
  "sdc_serve env lib toLocaleString (x # as) st =
     (fst (sdc_serve env lib toLocaleString as (fst (sdc_post_submit env lib toLocaleString x st))),
      snd (sdc_post_submit env lib toLocaleString x st) #
      snd (sdc_serve env lib toLocaleString as (fst (sdc_post_submit env lib toLocaleString x st))))"
  by (simp add: case_prod_unfold)

lemma serve_spaced:
  assumes "\<And>a. spaced (lim_windowMs contactLimiter) (lim_max contactLimiter) (st_hits st a)"
  shows "spaced (lim_windowMs contactLimiter) (lim_max contactLimiter)
           (st_hits (fst (sdc_serve env lib toLocaleString as st)) a)"
  using assms
proof (induction as arbitrary: st)
  case Nil
  then show ?case by simp
next
  case (Cons x as)
  have "\<And>a. spaced (lim_windowMs contactLimiter) (lim_max contactLimiter)
      (st_hits (fst (sdc_post_submit env lib toLocaleString x st)) a)"
    using Cons.prems by (simp only: post_submit_hits rateLimit_spaced)
  from Cons.IH [OF this] show ?case
    by (simp only: serve_Cons fst_conv)
qed

text \<open>The log of an address after a run: the times of its requests that reached the handler,
  newest first, on top of the log before the run.\<close>

lemma serve_log:
  "st_hits (fst (sdc_serve env lib toLocaleString as st)) ip =
     rev (map ar_time (map fst (filter (\<lambda>(a, r). req_ip (ar_req a) = ip \<and> is_Handled r)
        (zip as (snd (sdc_serve env lib toLocaleString as st)))))) @ st_hits st ip"
proof (induction as arbitrary: st)
  case Nil
  show ?case by simp
next
  case (Cons x as)
  let ?st1 = "fst (sdc_post_submit env lib toLocaleString x st)"
  let ?r = "snd (sdc_post_submit env lib toLocaleString x st)"
  have step: "st_hits ?st1 ip =
      (if req_ip (ar_req x) = ip \<and> is_Handled ?r then [ar_time x] else []) @ st_hits st ip"
    by (auto simp: post_submit_hits post_submit_reply rateLimit_hits)
  show ?case
    unfolding serve_Cons fst_conv snd_conv
    by (simp add: Cons.IH [of ?st1] step)
qed

text \<open>
  Claim C5, on the limiter as the spec describes it, with the options and the place in the
  route that the source gives it. In a run of the route from a state with no logged requests,
  and for every client address, at most 5 of the requests that arrive within any 15 minutes
  reach the handler. A request that finds 5 requests of its address accepted in the last 15
  minutes is answered by the limiter with its fixed message; the validation rules are not
  run and the state stays as it was.
\<close>

theorem at_most_five_per_window:
  "accepted_in_window ip u
     (zip arrivals
        (snd (sdc_serve env lib toLocaleString arrivals
                \<lparr>st_hits = no_hits, st_submissions = submissions\<rparr>))) \<le> 5 \<and>
   (5 \<le> length (filter (\<lambda>t. ar_time a < t + 15 * 60 * 1000) (st_hits st (req_ip (ar_req a)))) \<longrightarrow>
      sdc_post_submit env lib toLocaleString a st =
        (st, Limited 429 ''Too many contact attempts, please try again later''))"
proof (intro conjI impI)
  let ?st = "\<lparr>st_hits = no_hits, st_submissions = submissions\<rparr>"
  let ?fin = "fst (sdc_serve env lib toLocaleString arrivals ?st)"
  let ?acc = "filter (\<lambda>(a, r). req_ip (ar_req a) = ip \<and> is_Handled r)
      (zip arrivals (snd (sdc_serve env lib toLocaleString arrivals ?st)))"
  have "\<And>a. spaced (lim_windowMs contactLimiter) (lim_max contactLimiter) (st_hits ?st a)"
    by (simp add: no_hits_def)
  then have "spaced (lim_windowMs contactLimiter) (lim_max contactLimiter) (st_hits ?fin ip)"
    by (rule serve_spaced)
  then have sp: "spaced (15 * 60 * 1000) 5 (st_hits ?fin ip)"
    by (simp add: contactLimiter_def)
  have "st_hits ?fin ip = rev (map ar_time (map fst ?acc)) @ st_hits ?st ip"
    by (rule serve_log)
  then have log: "map ar_time (map fst ?acc) = rev (st_hits ?fin ip)"
    by (simp add: no_hits_def)
  have "accepted_in_window ip u
     (zip arrivals (snd (sdc_serve env lib toLocaleString arrivals ?st))) =
     length (filter (\<lambda>x. u \<le> x \<and> x < u + 15 * 60 * 1000) (map ar_time (map fst ?acc)))"
    unfolding accepted_in_window_def
    by (simp add: filter_map comp_def case_prod_unfold conj_ac)
  also have "\<dots> = length (filter (\<lambda>x. u \<le> x \<and> x < u + 15 * 60 * 1000) (st_hits ?fin ip))"
    by (simp only: log rev_filter [symmetric] length_rev)
  also have "\<dots> \<le> 5"
    by (rule spaced_window [OF sp])
  finally show "accepted_in_window ip u
     (zip arrivals (snd (sdc_serve env lib toLocaleString arrivals ?st))) \<le> 5" .
next
  assume "5 \<le> length (filter (\<lambda>t. ar_time a < t + 15 * 60 * 1000) (st_hits st (req_ip (ar_req a))))"
  then show "sdc_post_submit env lib toLocaleString a st =
        (st, Limited 429 ''Too many contact attempts, please try again later'')"
    by (simp add: sdc_post_submit_def rateLimit_def contactLimiter_def)
qed


text \<open>Seven sample posts from one address: the sixth comes within 15 minutes of the first
  five and is turned away, the seventh comes when two of them have left the window.\<close>

lemma sample_arrival_simps:
  "req_ip (ar_req (sample_arrival t)) = ''203.0.113.7''"
  "ar_time (sample_arrival t) = t"
  by (simp_all add: sample_arrival_def sample_request_def)

lemma sample_run:
  "map is_Handled
     (snd (sdc_serve sample_env sample_lib toString_nat sample_arrivals
             \<lparr>st_hits = no_hits, st_submissions = empty_store\<rparr>)) =
     [True, True, True, True, True, False, True]"
  unfolding sample_arrivals_def list.map
  by (simp add: serve_Cons post_submit_reply post_submit_hits rateLimit_accepts rateLimit_hits
      sample_arrival_simps contactLimiter_def no_hits_def del: sdc_serve.simps(2))

theorem at_most_five_per_window_witness:
  "map is_Handled
     (snd (sdc_serve sample_env sample_lib toString_nat sample_arrivals
             \<lparr>st_hits = no_hits, st_submissions = empty_store\<rparr>)) =
     [True, True, True, True, True, False, True] \<and>
   accepted_in_window ''203.0.113.7'' 0
     (zip sample_arrivals
        (snd (sdc_serve sample_env sample_lib toString_nat sample_arrivals
                \<lparr>st_hits = no_hits, st_submissions = empty_store\<rparr>))) \<le> 5 \<and>
   5 \<le> length (filter (\<lambda>t. 300000 < t + 15 * 60 * 1000)
               (st_hits busy_state ''203.0.113.7'')) \<and>
   sdc_post_submit sample_env sample_lib toString_nat (sample_arrival 300000) busy_state =
     (busy_state, Limited 429 ''Too many contact attempts, please try again later'')"
proof -
  have five: "5 \<le> length (filter (\<lambda>t. ar_time (sample_arrival 300000) < t + 15 * 60 * 1000)
      (st_hits busy_state (req_ip (ar_req (sample_arrival 300000)))))"
    by (simp add: sample_arrival_simps busy_state_def)
  have "5 \<le> length (filter (\<lambda>t. 300000 < t + 15 * 60 * 1000)
               (st_hits busy_state ''203.0.113.7''))"
    by (simp add: busy_state_def)
  with at_most_five_per_window
         [of "''203.0.113.7''" 0 sample_arrivals sample_env sample_lib toString_nat empty_store
             "sample_arrival 300000" busy_state]
       five sample_run
  show ?thesis
    by simp
qed


end
